theory Spec2Isabelle
  imports Main "HOL-Library.Char_ord" "HOL-Library.Sublist"
begin

section \<open>The descriptor tree read by the generator\<close>

text \<open>
  The generator of \<^verbatim>\<open>protoc-gen-go-ttrpc\<close> reads \<^verbatim>\<open>protogen\<close> values and never writes
  them. Every Go struct it touches is a record with the fields the generator reads, under the
  Go names. \<^verbatim>\<open>GoName\<close> is a field of \<^verbatim>\<open>protogen.GoIdent\<close>, \<^verbatim>\<open>protogen.Method\<close> and
  \<^verbatim>\<open>protogen.Service\<close>, so the three records extend one record holding it; \<^verbatim>\<open>Desc\<close> is
  a field of methods and services, with a descriptor type of its own for each.
\<close>

record named =
  GoName :: string

record goIdent = named +
  GoImportPath :: string

record message =
  GoIdent :: goIdent

record 'd described = named +
  Desc :: 'd

text \<open>\<^verbatim>\<open>protoreflect.MethodDescriptor\<close>: \<^verbatim>\<open>Name()\<close> is the name written in the
  \<^verbatim>\<open>.proto\<close> file, without the service and the package.\<close>

record methodDescriptor =
  Name :: string
  IsStreamingClient :: bool
  IsStreamingServer :: bool

record serviceDescriptor =
  FullName :: string

record rpcMethod = "methodDescriptor described" +
  Input :: message
  Output :: message

record service = "serviceDescriptor described" +
  Methods :: "rpcMethod list"

section \<open>The generator\<close>

text \<open>
  \<^verbatim>\<open>generator.out\<close> is a \<^verbatim>\<open>*protogen.GeneratedFile\<close>. The generator uses two of its
  methods. \<^verbatim>\<open>QualifiedGoIdent\<close> belongs to the protogen library: it is the field
  \<open>QualifiedGoIdent\<close> of the record, a function from identifiers to the text that names them
  in the generated file. \<^verbatim>\<open>P\<close> prints its arguments one after the other, then a newline:
  the text a call appends is one line, and every function below returns the lines it prints,
  in order. An argument of type \<^verbatim>\<open>GoIdent\<close> is printed by \<^verbatim>\<open>P\<close> as \<^verbatim>\<open>QualifiedGoIdent\<close>
  names it.
\<close>

record generator =
  QualifiedGoIdent :: "goIdent \<Rightarrow> string"
  ident_context :: string
  ident_server :: string
  ident_client :: string
  ident_method :: string
  ident_stream :: string
  ident_serviceDesc :: string
  ident_streamDesc :: string
  ident_streamServerIdent :: goIdent
  ident_streamClientIdent :: goIdent
  ident_streamServer :: string
  ident_streamClient :: string

definition P :: "string list \<Rightarrow> string list" where
  "P v = [concat v]"

definition ttrpcIdent :: "string \<Rightarrow> goIdent" where
  "ttrpcIdent n = \<lparr>GoName = n, GoImportPath = ''github.com/containerd/ttrpc''\<rparr>"

definition newGenerator :: "(goIdent \<Rightarrow> string) \<Rightarrow> generator" where
  "newGenerator out =
     \<lparr>QualifiedGoIdent = out,
      ident_context = out \<lparr>GoName = ''Context'', GoImportPath = ''context''\<rparr>,
      ident_server = out (ttrpcIdent ''Server''),
      ident_client = out (ttrpcIdent ''Client''),
      ident_method = out (ttrpcIdent ''Method''),
      ident_stream = out (ttrpcIdent ''Stream''),
      ident_serviceDesc = out (ttrpcIdent ''ServiceDesc''),
      ident_streamDesc = out (ttrpcIdent ''StreamDesc''),
      ident_streamServerIdent = ttrpcIdent ''StreamServer'',
      ident_streamClientIdent = ttrpcIdent ''ClientStream'',
      ident_streamServer = out (ttrpcIdent ''StreamServer''),
      ident_streamClient = out (ttrpcIdent ''ClientStream'')\<rparr>"

text \<open>\<^verbatim>\<open>strings.ToLower\<close> of the Go library, on the bytes of an ASCII string (the names of
  a \<^verbatim>\<open>.proto\<close> file are ASCII): the letters A to Z get bit 5 set.\<close>

definition lowerChar :: "char \<Rightarrow> char" where
  "lowerChar c =
     (if CHR ''A'' \<le> c \<and> c \<le> CHR ''Z''
      then (case c of Char b0 b1 b2 b3 b4 b5 b6 b7 \<Rightarrow> Char b0 b1 b2 b3 b4 True b6 b7)
      else c)"

definition ToLower :: "string \<Rightarrow> string" where
  "ToLower s = map lowerChar s"

subsection \<open>The service interface (lines 113 to 136)\<close>

text \<open>The two strings \<^verbatim>\<open>sendArgs\<close> and \<^verbatim>\<open>retArgs\<close> at the end of one turn of the
  loop.\<close>

definition interfaceSendArgs :: "generator \<Rightarrow> service \<Rightarrow> rpcMethod \<Rightarrow> string" where
  "interfaceSendArgs gen service method =
     (if IsStreamingClient (Desc method) \<or> IsStreamingServer (Desc method) then
        (let sendArgs = GoName service @ ''_'' @ GoName method @ ''Server'' in
         if \<not> IsStreamingClient (Desc method)
         then ''*'' @ QualifiedGoIdent gen (GoIdent (Input method)) @ '', '' @ sendArgs
         else sendArgs)
      else ''*'' @ QualifiedGoIdent gen (GoIdent (Input method)))"

definition interfaceRetArgs :: "generator \<Rightarrow> service \<Rightarrow> rpcMethod \<Rightarrow> string" where
  "interfaceRetArgs gen service method =
     (if IsStreamingClient (Desc method) \<or> IsStreamingServer (Desc method) then
        (if IsStreamingServer (Desc method) then ''error''
         else ''(*'' @ QualifiedGoIdent gen (GoIdent (Output method)) @ '', error)'')
      else ''(*'' @ QualifiedGoIdent gen (GoIdent (Output method)) @ '', error)'')"

text \<open>The loop over \<^verbatim>\<open>service.Methods\<close>: it prints one line for each method and appends
  the method to \<^verbatim>\<open>streams\<close> or to \<^verbatim>\<open>methods\<close>. It returns the lines and the two slices.\<close>

fun serviceInterfaceLoop ::
  "generator \<Rightarrow> service \<Rightarrow> rpcMethod list \<Rightarrow> rpcMethod list \<Rightarrow> rpcMethod list
    \<Rightarrow> string list \<times> rpcMethod list \<times> rpcMethod list" where
  "serviceInterfaceLoop gen service [] methods streams = ([], methods, streams)"
| "serviceInterfaceLoop gen service (method # rest) methods streams =
     (let line = P [GoName method, ''('', ident_context gen, '', '',
                    interfaceSendArgs gen service method, '') '',
                    interfaceRetArgs gen service method];
          (lines, methods', streams') =
            (if IsStreamingClient (Desc method) \<or> IsStreamingServer (Desc method)
             then serviceInterfaceLoop gen service rest methods (streams @ [method])
             else serviceInterfaceLoop gen service rest (methods @ [method]) streams)
      in (line @ lines, methods', streams'))"

subsection \<open>The server stream wrappers (lines 138 to 175)\<close>

definition serverStructName :: "service \<Rightarrow> rpcMethod \<Rightarrow> string" where
  "serverStructName service method = ToLower (GoName service) @ GoName method @ ''Server''"

definition serverStreamInterface :: "generator \<Rightarrow> service \<Rightarrow> rpcMethod \<Rightarrow> string list" where
  "serverStreamInterface gen service method =
     P [''type '', GoName service, ''_'', GoName method, ''Server interface {''] @
     (if IsStreamingServer (Desc method)
      then P [''Send(*'', QualifiedGoIdent gen (GoIdent (Output method)), '') error'']
      else []) @
     (if IsStreamingClient (Desc method)
      then P [''Recv() (*'', QualifiedGoIdent gen (GoIdent (Input method)), '', error)'']
      else []) @
     P [ident_streamServer gen] @
     P [''}''] @
     P []"

definition serverStreamStruct :: "generator \<Rightarrow> service \<Rightarrow> rpcMethod \<Rightarrow> string list" where
  "serverStreamStruct gen service method =
     (let structName = serverStructName service method in
      P [''type '', structName, '' struct {''] @
      P [ident_streamServer gen] @
      P [''}''] @
      P [] @
      (if IsStreamingServer (Desc method) then
         P [''func (x *'', structName, '') Send(m *'',
            QualifiedGoIdent gen (GoIdent (Output method)), '') error {''] @
         P [''return x.StreamServer.SendMsg(m)''] @
         P [''}''] @
         P []
       else []) @
      (if IsStreamingClient (Desc method) then
         P [''func (x *'', structName, '') Recv() (*'',
            QualifiedGoIdent gen (GoIdent (Input method)), '', error) {''] @
         P [''m := new('', QualifiedGoIdent gen (GoIdent (Input method)), '')''] @
         P [''if err := x.StreamServer.RecvMsg(m); err != nil {''] @
         P [''return nil, err''] @
         P [''}''] @
         P [''return m, nil''] @
         P [''}''] @
         P []
       else []))"

definition serverStream :: "generator \<Rightarrow> service \<Rightarrow> rpcMethod \<Rightarrow> string list" where
  "serverStream gen service method =
     serverStreamInterface gen service method @ serverStreamStruct gen service method"

subsection \<open>The registration function (lines 177 to 231)\<close>

definition unaryHandler :: "generator \<Rightarrow> rpcMethod \<Rightarrow> string list" where
  \<open>unaryHandler gen method =
     P [''"'', GoName method, ''": func(ctx '', ident_context gen,
        '', unmarshal func(interface{}) error)(interface{}, error){''] @
     P [''var req '', QualifiedGoIdent gen (GoIdent (Input method))] @
     P [''if err := unmarshal(&req); err != nil {''] @
     P [''return nil, err''] @
     P [''}''] @
     P [''return svc.'', GoName method, ''(ctx, &req)''] @
     P [''},'']\<close>

definition streamHandler :: "generator \<Rightarrow> service \<Rightarrow> rpcMethod \<Rightarrow> string list" where
  \<open>streamHandler gen service method =
     (let structName = ToLower (GoName service) @ GoName method @ ''Server'';
          sendArg = (if \<not> IsStreamingClient (Desc method) then ''m, '' else '''') in
      P [''"'', GoName method, ''": {''] @
      P [''Handler: func(ctx '', ident_context gen, '', stream '', ident_streamServer gen,
         '') (interface{}, error) {''] @
      (if \<not> IsStreamingClient (Desc method) then
         P [''m := new('', QualifiedGoIdent gen (GoIdent (Input method)), '')''] @
         P [''if err := stream.RecvMsg(m); err != nil {''] @
         P [''return nil, err''] @
         P [''}'']
       else []) @
      (if IsStreamingServer (Desc method)
       then P [''return nil, svc.'', GoName method, ''(ctx, '', sendArg, ''&'', structName,
               ''{stream})'']
       else P [''return svc.'', GoName method, ''(ctx, '', sendArg, ''&'', structName,
               ''{stream})'']) @
      P [''},''] @
      (if IsStreamingClient (Desc method)
       then P [''StreamingClient: true,'']
       else P [''StreamingClient: false,'']) @
      (if IsStreamingServer (Desc method)
       then P [''StreamingServer: true,'']
       else P [''StreamingServer: false,'']) @
      P [''},''])\<close>

definition registration ::
  "generator \<Rightarrow> service \<Rightarrow> rpcMethod list \<Rightarrow> rpcMethod list \<Rightarrow> string list" where
  \<open>registration gen service methods streams =
     (let fullName = FullName (Desc service);
          serviceName = GoName service @ ''Service'' in
      P [''func Register'', serviceName, ''(srv *'', ident_server gen, '', svc '',
         serviceName, ''){''] @
      P [''srv.RegisterService("'', fullName, ''", &'', ident_serviceDesc gen, ''{''] @
      (if length methods > 0 then
         P [''Methods: map[string]'', ident_method gen, ''{''] @
         concat (map (unaryHandler gen) methods) @
         P [''},'']
       else []) @
      (if length streams > 0 then
         P [''Streams: map[string]'', ident_stream gen, ''{''] @
         concat (map (streamHandler gen service) streams) @
         P [''},'']
       else []) @
      P [''})''] @
      P [''}''] @
      P [])\<close>

subsection \<open>The client interface (lines 233 to 262)\<close>

text \<open>The loop of lines 242 to 259 appends to \<^verbatim>\<open>streams\<close> and \<^verbatim>\<open>methods\<close> once more;
  nothing reads the two slices after it.\<close>

fun clientInterfaceLoop ::
  "generator \<Rightarrow> service \<Rightarrow> rpcMethod list \<Rightarrow> rpcMethod list \<Rightarrow> rpcMethod list
    \<Rightarrow> string list \<times> rpcMethod list \<times> rpcMethod list" where
  "clientInterfaceLoop gen service [] methods streams = ([], methods, streams)"
| "clientInterfaceLoop gen service (method # rest) methods streams =
     (if IsStreamingClient (Desc method) \<or> IsStreamingServer (Desc method) then
        (let sendArg = (if \<not> IsStreamingClient (Desc method)
                        then ''*'' @ QualifiedGoIdent gen (GoIdent (Input method)) @ '', ''
                        else '''');
             line = P [GoName method, ''('', ident_context gen, '', '', sendArg,
                       '') ('', GoName service, ''_'', GoName method, ''Client, error)''];
             (lines, methods', streams') =
               clientInterfaceLoop gen service rest methods (streams @ [method])
         in (line @ lines, methods', streams'))
      else
        (let line = P [GoName method, ''('', ident_context gen, '', '',
                       ''*'', QualifiedGoIdent gen (GoIdent (Input method)), '')'',
                       ''(*'', QualifiedGoIdent gen (GoIdent (Output method)), '', error)''];
             (lines, methods', streams') =
               clientInterfaceLoop gen service rest (methods @ [method]) streams
         in (line @ lines, methods', streams')))"

text \<open>The name of the client interface, and the lines that declare it.\<close>

definition clientInterfaceDecl ::
  "generator \<Rightarrow> service \<Rightarrow> rpcMethod list \<Rightarrow> rpcMethod list \<Rightarrow> string \<times> string list" where
  "clientInterfaceDecl gen service methods streams =
     (let serviceName = GoName service @ ''Service'';
          clientType = GoName service @ ''Client'' in
      if length streams > 0 then
        (let clientInterface = clientType;
             (lines, methods', streams') =
               clientInterfaceLoop gen service (Methods service) methods streams
         in (clientInterface,
             P [''type '', clientInterface, '' interface{''] @ lines @ P [''}''] @ P []))
      else (serviceName, []))"

subsection \<open>The client struct and its constructor (lines 264 to 273)\<close>

definition clientStructType :: "service \<Rightarrow> string" where
  "clientStructType service =
     (let clientType = GoName service @ ''Client'' in
      ToLower (take 1 clientType) @ drop 1 clientType)"

definition clientStruct :: "generator \<Rightarrow> service \<Rightarrow> string \<Rightarrow> string list" where
  "clientStruct gen service clientInterface =
     (let clientType = GoName service @ ''Client'' in
      P [''type '', clientStructType service, '' struct{''] @
      P [''client *'', ident_client gen] @
      P [''}''] @
      P [''func New'', clientType, ''(client *'', ident_client gen, '')'', clientInterface,
         ''{''] @
      P [''return &'', clientStructType service, ''{''] @
      P [''client:client,''] @
      P [''}''] @
      P [''}''] @
      P [])"

subsection \<open>The client methods (lines 275 to 382)\<close>

definition clientStructName :: "service \<Rightarrow> rpcMethod \<Rightarrow> string" where
  "clientStructName service method = ToLower (GoName service) @ GoName method @ ''Client''"

definition clientMethodHeader :: "generator \<Rightarrow> service \<Rightarrow> rpcMethod \<Rightarrow> string list" where
  "clientMethodHeader gen service method =
     (let sendArg = (if \<not> IsStreamingClient (Desc method)
                     then '', req *'' @ QualifiedGoIdent gen (GoIdent (Input method))
                     else '''');
          intName = GoName service @ ''_'' @ GoName method @ ''Client'';
          retArg = (if IsStreamingClient (Desc method) \<or> IsStreamingServer (Desc method)
                    then intName
                    else ''*'' @ QualifiedGoIdent gen (GoIdent (Output method))) in
      P [''func (c *'', clientStructType service, '') '', GoName method,
         ''(ctx '', ident_context gen, '''', sendArg, '') '',
         ''('', retArg, '', error) {''])"

definition clientStreamCall :: "generator \<Rightarrow> service \<Rightarrow> rpcMethod \<Rightarrow> string list" where
  \<open>clientStreamCall gen service method =
     (let fullName = FullName (Desc service);
          streamingClient = (if IsStreamingClient (Desc method) then ''true'' else ''false'');
          req = (if IsStreamingClient (Desc method) then ''nil'' else ''req'');
          streamingServer = (if IsStreamingServer (Desc method) then ''true'' else ''false'');
          structName = clientStructName service method in
      P [''stream, err := c.client.NewStream(ctx, &'', ident_streamDesc gen, ''{''] @
      P [''StreamingClient: '', streamingClient, '',''] @
      P [''StreamingServer: '', streamingServer, '',''] @
      P [''}, '', ''"'' @ fullName @ ''", '', ''"'' @ GoName method @ ''", '', req, '')''] @
      P [''if err != nil {''] @
      P [''return nil, err''] @
      P [''}''] @
      P [''x := &'', structName, ''{stream}''] @
      P [''return x, nil''] @
      P [''}''] @
      P [])\<close>

definition clientStreamInterface :: "generator \<Rightarrow> service \<Rightarrow> rpcMethod \<Rightarrow> string list" where
  "clientStreamInterface gen service method =
     (let intName = GoName service @ ''_'' @ GoName method @ ''Client'' in
      P [''type '', intName, '' interface {''] @
      (if IsStreamingClient (Desc method)
       then P [''Send(*'', QualifiedGoIdent gen (GoIdent (Input method)), '') error'']
       else []) @
      (if IsStreamingServer (Desc method)
       then P [''Recv() (*'', QualifiedGoIdent gen (GoIdent (Output method)), '', error)'']
       else P [''CloseAndRecv() (*'', QualifiedGoIdent gen (GoIdent (Output method)),
               '', error)'']) @
      P [ident_streamClient gen] @
      P [''}''] @
      P [])"

definition clientStreamStruct :: "generator \<Rightarrow> service \<Rightarrow> rpcMethod \<Rightarrow> string list" where
  "clientStreamStruct gen service method =
     (let structName = clientStructName service method in
      P [''type '', structName, '' struct {''] @
      P [ident_streamClient gen] @
      P [''}''] @
      P [] @
      (if IsStreamingClient (Desc method) then
         P [''func (x *'', structName, '') Send(m *'',
            QualifiedGoIdent gen (GoIdent (Input method)), '') error {''] @
         P [''return x.'', GoName (ident_streamClientIdent gen), ''.SendMsg(m)''] @
         P [''}''] @
         P []
       else []) @
      (if IsStreamingServer (Desc method) then
         P [''func (x *'', structName, '') Recv() (*'',
            QualifiedGoIdent gen (GoIdent (Output method)), '', error) {''] @
         P [''m := new('', QualifiedGoIdent gen (GoIdent (Output method)), '')''] @
         P [''if err := x.ClientStream.RecvMsg(m); err != nil {''] @
         P [''return nil, err''] @
         P [''}''] @
         P [''return m, nil''] @
         P [''}''] @
         P []
       else
         P [''func (x *'', structName, '') CloseAndRecv() (*'',
            QualifiedGoIdent gen (GoIdent (Output method)), '', error) {''] @
         P [''if err := x.ClientStream.CloseSend(); err != nil {''] @
         P [''return nil, err''] @
         P [''}''] @
         P [''m := new('', QualifiedGoIdent gen (GoIdent (Output method)), '')''] @
         P [''if err := x.ClientStream.RecvMsg(m); err != nil {''] @
         P [''return nil, err''] @
         P [''}''] @
         P [''return m, nil''] @
         P [''}''] @
         P []))"

definition clientUnaryCall :: "generator \<Rightarrow> service \<Rightarrow> rpcMethod \<Rightarrow> string list" where
  \<open>clientUnaryCall gen service method =
     (let fullName = FullName (Desc service) in
      P [''var resp '', QualifiedGoIdent gen (GoIdent (Output method))] @
      P [''if err := c.client.Call(ctx, "'', fullName, ''", "'', Name (Desc method),
         ''", req, &resp); err != nil {''] @
      P [''return nil, err''] @
      P [''}''] @
      P [''return &resp, nil''] @
      P [''}''] @
      P [])\<close>

definition clientMethod :: "generator \<Rightarrow> service \<Rightarrow> rpcMethod \<Rightarrow> string list" where
  "clientMethod gen service method =
     clientMethodHeader gen service method @
     (if IsStreamingClient (Desc method) \<or> IsStreamingServer (Desc method) then
        clientStreamCall gen service method @
        clientStreamInterface gen service method @
        clientStreamStruct gen service method
      else clientUnaryCall gen service method)"

subsection \<open>genService\<close>

definition genService :: "generator \<Rightarrow> service \<Rightarrow> string list" where
  "genService gen service =
     (let serviceName = GoName service @ ''Service'';
          (interfaceLines, methods, streams) =
            serviceInterfaceLoop gen service (Methods service) [] [];
          (clientInterface, clientInterfaceLines) =
            clientInterfaceDecl gen service methods streams in
      P [''type '', serviceName, '' interface{''] @
      interfaceLines @
      P [''}''] @
      P [] @
      concat (map (serverStream gen service) streams) @
      registration gen service methods streams @
      clientInterfaceLines @
      clientStruct gen service clientInterface @
      concat (map (clientMethod gen service) (Methods service)))"

section \<open>The notions of the specification\<close>

subsection \<open>Shapes\<close>

text \<open>The specification derives a shape from the two streaming flags of a method, by a
  table. The generator has no such function: it tests the flags where it needs them.\<close>

datatype shape = UNARY | CLIENT_STREAM | SERVER_STREAM | BIDI_STREAM

fun classify :: "bool \<Rightarrow> bool \<Rightarrow> shape" where
  "classify False False = UNARY"
| "classify True False = CLIENT_STREAM"
| "classify False True = SERVER_STREAM"
| "classify True True = BIDI_STREAM"

definition shapeOf :: "rpcMethod \<Rightarrow> shape" where
  "shapeOf method = classify (IsStreamingClient (Desc method)) (IsStreamingServer (Desc method))"

text \<open>The table of server-method signatures of the specification, as Go text: the context
  type, the input and output message types and the server stream type are the arguments.\<close>

definition serverSignature :: "shape \<Rightarrow> string \<Rightarrow> string \<Rightarrow> string \<Rightarrow> string \<Rightarrow> string" where
  "serverSignature sh ctx inp outp streamType =
     (case sh of
        UNARY \<Rightarrow> ''('' @ ctx @ '', *'' @ inp @ '') (*'' @ outp @ '', error)''
      | CLIENT_STREAM \<Rightarrow> ''('' @ ctx @ '', '' @ streamType @ '') (*'' @ outp @ '', error)''
      | SERVER_STREAM \<Rightarrow> ''('' @ ctx @ '', *'' @ inp @ '', '' @ streamType @ '') error''
      | BIDI_STREAM \<Rightarrow> ''('' @ ctx @ '', '' @ streamType @ '') error'')"

subsection \<open>The lines of the two interface loops\<close>

text \<open>The line that one turn of the loop of lines 115 to 134 prints, and the line that one
  turn of the loop of lines 242 to 259 prints.\<close>

definition interfaceLine :: "generator \<Rightarrow> service \<Rightarrow> rpcMethod \<Rightarrow> string" where
  "interfaceLine gen service method =
     concat [GoName method, ''('', ident_context gen, '', '',
             interfaceSendArgs gen service method, '') '', interfaceRetArgs gen service method]"

definition clientInterfaceLine :: "generator \<Rightarrow> service \<Rightarrow> rpcMethod \<Rightarrow> string" where
  "clientInterfaceLine gen service method =
     (if IsStreamingClient (Desc method) \<or> IsStreamingServer (Desc method) then
        concat [GoName method, ''('', ident_context gen, '', '',
                (if \<not> IsStreamingClient (Desc method)
                 then ''*'' @ QualifiedGoIdent gen (GoIdent (Input method)) @ '', '' else []),
                '') ('', GoName service, ''_'', GoName method, ''Client, error)'']
      else
        concat [GoName method, ''('', ident_context gen, '', '',
                ''*'', QualifiedGoIdent gen (GoIdent (Input method)), '')'',
                ''(*'', QualifiedGoIdent gen (GoIdent (Output method)), '', error)''])"

subsection \<open>Reading the generated text\<close>

text \<open>A Go interface block declares a method when one of its lines starts with the name of
  the method and an opening parenthesis; a block of method definitions defines a method
  on a struct type when one of its lines starts with \<^verbatim>\<open>func (x *T) name(\<close>.\<close>

definition declaresMethod :: "string \<Rightarrow> string list \<Rightarrow> bool" where
  "declaresMethod name block = list_ex (prefix (name @ ''('')) block"

definition definesMethod :: "string \<Rightarrow> string \<Rightarrow> string list \<Rightarrow> bool" where
  "definesMethod structName name block =
     list_ex (prefix (''func (x *'' @ structName @ '') '' @ name @ ''('')) block"

text \<open>String literals of the generated text. \<open>quoted s\<close> is the content of the literal
  that \<open>s\<close> starts with, and \<open>afterQuoted s\<close> is the text behind that literal.\<close>

definition quoted :: "string \<Rightarrow> string option" where
  "quoted s =
     (case s of
        [] \<Rightarrow> None
      | c # rest \<Rightarrow>
          if c = CHR 0x22 \<and> CHR 0x22 \<in> set rest
          then Some (takeWhile (\<lambda>c. c \<noteq> CHR 0x22) rest)
          else None)"

definition afterQuoted :: "string \<Rightarrow> string" where
  "afterQuoted s = drop 1 (dropWhile (\<lambda>c. c \<noteq> CHR 0x22) (drop 1 s))"

text \<open>The second of two string literals separated by a comma and a space, behind a given
  start of the line.\<close>

definition secondQuoted :: "string \<Rightarrow> string \<Rightarrow> string option" where
  "secondQuoted start line =
     (if prefix start line then
        (let s = drop (length start) line in
         case quoted s of
           None \<Rightarrow> None
         | Some first \<Rightarrow>
             if prefix '', '' (afterQuoted s) then quoted (drop 2 (afterQuoted s)) else None)
      else None)"

text \<open>The key of an entry of a Go map literal with string keys, one entry starting on each
  line that starts with a string literal; the service name that a line passes to
  \<^verbatim>\<open>RegisterService\<close>; the method name that a line of a client method passes to
  \<^verbatim>\<open>Call\<close> (third argument) or to \<^verbatim>\<open>NewStream\<close> (fourth argument, on the line that
  closes the stream descriptor).\<close>

definition mapKey :: "string \<Rightarrow> string option" where
  "mapKey line = quoted line"

definition registryKey :: "string \<Rightarrow> string option" where
  "registryKey line =
     (if prefix ''srv.RegisterService('' line
      then quoted (drop (length ''srv.RegisterService('') line)
      else None)"

definition callMethodName :: "string \<Rightarrow> string option" where
  "callMethodName line = secondQuoted ''if err := c.client.Call(ctx, '' line"

definition newStreamMethodName :: "string \<Rightarrow> string option" where
  "newStreamMethodName line = secondQuoted ''}, '' line"

text \<open>The registration function that \<^verbatim>\<open>genService\<close> prints for a service.\<close>

definition registrationOf :: "generator \<Rightarrow> service \<Rightarrow> string list" where
  "registrationOf gen service =
     (let (interfaceLines, methods, streams) =
            serviceInterfaceLoop gen service (Methods service) [] []
      in registration gen service methods streams)"

subsection \<open>The Go statements of the generated function bodies\<close>

text \<open>
  The bodies of the handlers and of the client methods are made of nine forms of Go
  statements. Each form is a constructor, \<open>render\<close> gives its Go text as the generator
  breaks it into lines, and \<open>exec\<close> runs a list of statements.
\<close>

datatype expr =
    Nil
  | Var string
  | AddrOf string
  | Composite string expr

datatype stmt =
    VarDecl string string
  | New string string
  | CheckedCall string "expr list"
  | NewStream string bool bool string string expr
  | CheckErr
  | Define string expr
  | Return "expr list"
  | ReturnCall string "expr list"
  | ReturnNilCall string "expr list"

fun commas :: "string list \<Rightarrow> string" where
  "commas [] = []"
| "commas [x] = x"
| "commas (x # y # ys) = x @ '', '' @ commas (y # ys)"

fun renderExpr :: "expr \<Rightarrow> string" where
  "renderExpr Nil = ''nil''"
| "renderExpr (Var x) = x"
| "renderExpr (AddrOf x) = ''&'' @ x"
| "renderExpr (Composite T e) = ''&'' @ T @ ''{'' @ renderExpr e @ ''}''"

definition goBool :: "bool \<Rightarrow> string" where
  "goBool b = (if b then ''true'' else ''false'')"

fun render :: "stmt \<Rightarrow> string list" where
  "render (VarDecl x T) = [''var '' @ x @ '' '' @ T]"
| "render (New x T) = [x @ '' := new('' @ T @ '')'']"
| "render (CheckedCall f args) =
     [''if err := '' @ f @ ''('' @ commas (map renderExpr args) @ ''); err != nil {'',
      ''return nil, err'',
      ''}'']"
| \<open>render (NewStream desc c s fullName name req) =
     [''stream, err := c.client.NewStream(ctx, &'' @ desc @ ''{'',
      ''StreamingClient: '' @ goBool c @ '','',
      ''StreamingServer: '' @ goBool s @ '','',
      ''}, "'' @ fullName @ ''", "'' @ name @ ''", '' @ renderExpr req @ '')'']\<close>
| "render CheckErr = [''if err != nil {'', ''return nil, err'', ''}'']"
| "render (Define x e) = [x @ '' := '' @ renderExpr e]"
| "render (Return es) = [''return '' @ commas (map renderExpr es)]"
| "render (ReturnCall f args) =
     [''return '' @ f @ ''('' @ commas (map renderExpr args) @ '')'']"
| "render (ReturnNilCall f args) =
     [''return nil, '' @ f @ ''('' @ commas (map renderExpr args) @ '')'']"

text \<open>
  Values: \<open>VNil\<close> is \<^verbatim>\<open>nil\<close>; \<open>Host a\<close> is a value that comes from outside the body
  (a context, a stream, an error, a response); \<open>Local T\<close> is the content of a variable
  declared by \<^verbatim>\<open>var x T\<close>, and \<open>PtrTo x T\<close> the address of this variable; \<open>PtrNew T\<close> is
  the pointer that \<^verbatim>\<open>new(T)\<close> returns; \<open>Wrapper T v\<close> is \<^verbatim>\<open>&T{v}\<close>; \<open>Descriptor c s\<close>
  is the address of a stream descriptor with the two flags; \<open>Str s\<close> is a string.

  Functions and methods that the body calls belong to the world: it answers a call, given
  by the text of the callee and the values of the arguments, with the values that the call
  returns. The run of a body is the list of the calls it makes, in order, and its outcome:
  the values it returns, the store if it reaches its end without returning, or \<open>Stuck\<close>
  where Go would not compile (a variable that is not declared, a call that does not return
  the number of values that the statement takes).
\<close>

datatype 'a val =
    VNil
  | Host 'a
  | Local string
  | PtrTo string string
  | PtrNew string
  | Wrapper string "'a val"
  | Descriptor bool bool
  | Str string

datatype 'a event = Call string "'a val list"

type_synonym 'a store = "string \<Rightarrow> 'a val option"

type_synonym 'a world = "string \<Rightarrow> 'a val list \<Rightarrow> 'a val list"

datatype 'a outcome = Returned "'a val list" | End "'a store" | Stuck

fun eval :: "'a store \<Rightarrow> expr \<Rightarrow> 'a val option" where
  "eval st Nil = Some VNil"
| "eval st (Var x) = st x"
| "eval st (AddrOf x) = (case st x of Some (Local T) \<Rightarrow> Some (PtrTo x T) | _ \<Rightarrow> None)"
| "eval st (Composite T e) = map_option (Wrapper T) (eval st e)"

definition evals :: "'a store \<Rightarrow> expr list \<Rightarrow> 'a val list option" where
  "evals st es = those (map (eval st) es)"

text \<open>A statement that calls puts the call in front of the calls of the rest.\<close>

definition after :: "'a event \<Rightarrow> 'a event list \<times> 'a outcome \<Rightarrow> 'a event list \<times> 'a outcome" where
  "after e r = (e # fst r, snd r)"

fun exec :: "'a world \<Rightarrow> 'a store \<Rightarrow> stmt list \<Rightarrow> 'a event list \<times> 'a outcome" where
  "exec w st [] = ([], End st)"
| "exec w st (VarDecl x T # rest) = exec w (st(x \<mapsto> Local T)) rest"
| "exec w st (New x T # rest) = exec w (st(x \<mapsto> PtrNew T)) rest"
| "exec w st (CheckedCall f args # rest) =
     (case evals st args of
        None \<Rightarrow> ([], Stuck)
      | Some vs \<Rightarrow>
          (case w f vs of
             [err] \<Rightarrow>
               if err \<noteq> VNil then ([Call f vs], Returned [VNil, err])
               else after (Call f vs) (exec w st rest)
           | _ \<Rightarrow> ([Call f vs], Stuck)))"
| "exec w st (NewStream desc c s fullName name req # rest) =
     (case evals st [Var ''ctx'', req] of
        Some [ctx, r] \<Rightarrow>
          (let vs = [ctx, Descriptor c s, Str fullName, Str name, r] in
           case w ''c.client.NewStream'' vs of
             [stream, err] \<Rightarrow>
               after (Call ''c.client.NewStream'' vs)
                 (exec w (st(''stream'' \<mapsto> stream, ''err'' \<mapsto> err)) rest)
           | _ \<Rightarrow> ([Call ''c.client.NewStream'' vs], Stuck))
      | _ \<Rightarrow> ([], Stuck))"
| "exec w st (CheckErr # rest) =
     (case st ''err'' of
        None \<Rightarrow> ([], Stuck)
      | Some err \<Rightarrow> if err \<noteq> VNil then ([], Returned [VNil, err]) else exec w st rest)"
| "exec w st (Define x e # rest) =
     (case eval st e of
        None \<Rightarrow> ([], Stuck)
      | Some v \<Rightarrow> exec w (st(x \<mapsto> v)) rest)"
| "exec w st (Return es # rest) =
     (case evals st es of
        None \<Rightarrow> ([], Stuck)
      | Some vs \<Rightarrow> ([], Returned vs))"
| "exec w st (ReturnCall f args # rest) =
     (case evals st args of
        None \<Rightarrow> ([], Stuck)
      | Some vs \<Rightarrow> ([Call f vs], Returned (w f vs)))"
| "exec w st (ReturnNilCall f args # rest) =
     (case evals st args of
        None \<Rightarrow> ([], Stuck)
      | Some vs \<Rightarrow> ([Call f vs], Returned (VNil # w f vs)))"

subsection \<open>Signatures\<close>

text \<open>A Go method signature is a name, the types of the parameters and the types of the
  results. \<open>interfaceMethodDecl\<close> is its line in an interface, \<open>funcDecl\<close> the first line of
  a method definition with a receiver and names for the parameters. \<open>unarySignature\<close> is the
  signature \<^verbatim>\<open>(context, *Input) (*Output, error)\<close> of a unary method.\<close>

record signature =
  sigName :: string
  sigParams :: "string list"
  sigResults :: "string list"

definition resultList :: "string list \<Rightarrow> string" where
  "resultList rs = (case rs of [r] \<Rightarrow> r | _ \<Rightarrow> ''('' @ commas rs @ '')'')"

definition interfaceMethodDecl :: "signature \<Rightarrow> string" where
  "interfaceMethodDecl sg =
     sigName sg @ ''('' @ commas (sigParams sg) @ '') '' @ resultList (sigResults sg)"

definition funcDecl :: "string \<Rightarrow> string list \<Rightarrow> signature \<Rightarrow> string" where
  "funcDecl receiver names sg =
     ''func ('' @ receiver @ '') '' @ sigName sg @
     ''('' @ commas (map2 (\<lambda>n t. n @ '' '' @ t) names (sigParams sg)) @ '') '' @
     resultList (sigResults sg) @ '' {''"

definition unarySignature :: "generator \<Rightarrow> rpcMethod \<Rightarrow> signature" where
  "unarySignature gen m =
     \<lparr>sigName = GoName m,
      sigParams = [ident_context gen, ''*'' @ QualifiedGoIdent gen (GoIdent (Input m))],
      sigResults = [''*'' @ QualifiedGoIdent gen (GoIdent (Output m)), ''error'']\<rparr>"

subsection \<open>The generated bodies as statements\<close>

text \<open>The body of a unary handler (lines 184 to 188), of a stream handler (lines 199 to
  213) and of a streaming client method (lines 307 to 319), for the types and names that
  the generator puts in.\<close>

definition unaryHandlerBody :: "string \<Rightarrow> string \<Rightarrow> stmt list" where
  "unaryHandlerBody inp name =
     [VarDecl ''req'' inp,
      CheckedCall ''unmarshal'' [AddrOf ''req''],
      ReturnCall (''svc.'' @ name) [Var ''ctx'', AddrOf ''req'']]"

definition streamHandlerBody :: "bool \<Rightarrow> bool \<Rightarrow> string \<Rightarrow> string \<Rightarrow> string \<Rightarrow> stmt list" where
  "streamHandlerBody c s inp name structName =
     (if \<not> c then [New ''m'' inp, CheckedCall ''stream.RecvMsg'' [Var ''m'']] else []) @
     [(if s then ReturnNilCall else ReturnCall) (''svc.'' @ name)
        (Var ''ctx'' # (if \<not> c then [Var ''m''] else []) @
         [Composite structName (Var ''stream'')])]"

definition clientStreamBody ::
  "string \<Rightarrow> bool \<Rightarrow> bool \<Rightarrow> string \<Rightarrow> string \<Rightarrow> string \<Rightarrow> stmt list" where
  "clientStreamBody desc c s fullName name structName =
     [NewStream desc c s fullName name (if c then Nil else Var ''req''),
      CheckErr,
      Define ''x'' (Composite structName (Var ''stream'')),
      Return [Var ''x'', Nil]]"

section \<open>Example services\<close>

text \<open>
  Inputs for the closed instances of the theorems: the three services of the scenarios of the
  specification (\<open>Echo\<close> with the unary method \<open>Say\<close>, \<open>Chat\<close> with the bidirectional
  method \<open>Talk\<close>, \<open>Upload\<close> with the client-streaming method \<open>Put\<close>) and a service
  \<open>Feed\<close> with a unary and a server-streaming method. \<open>qualifiedIn\<close> is one possible
  \<^verbatim>\<open>QualifiedGoIdent\<close>: the bare name for an identifier of the package of the generated
  file, and the last element of the import path, a dot and the name for any other.
\<close>

definition baseName :: "string \<Rightarrow> string" where
  "baseName path = rev (takeWhile (\<lambda>c. c \<noteq> CHR ''/'') (rev path))"

definition qualifiedIn :: "string \<Rightarrow> goIdent \<Rightarrow> string" where
  "qualifiedIn path i =
     (if GoImportPath i = path then GoName i
      else baseName (GoImportPath i) @ ''.'' @ GoName i)"

definition exampleGen :: generator where
  "exampleGen = newGenerator (qualifiedIn ''example.com/api'')"

definition exampleMessage :: "string \<Rightarrow> message" where
  "exampleMessage n = \<lparr>GoIdent = \<lparr>GoName = n, GoImportPath = ''example.com/api''\<rparr>\<rparr>"

definition Say :: rpcMethod where
  "Say = \<lparr>GoName = ''Say'',
          Desc = \<lparr>Name = ''Say'', IsStreamingClient = False, IsStreamingServer = False\<rparr>,
          Input = exampleMessage ''EchoRequest'', Output = exampleMessage ''EchoResponse''\<rparr>"

definition Echo :: service where
  "Echo = \<lparr>GoName = ''Echo'', Desc = \<lparr>FullName = ''api.Echo''\<rparr>, Methods = [Say]\<rparr>"



definition Put :: rpcMethod where
  "Put = \<lparr>GoName = ''Put'',
          Desc = \<lparr>Name = ''Put'', IsStreamingClient = True, IsStreamingServer = False\<rparr>,
          Input = exampleMessage ''Chunk'', Output = exampleMessage ''Ack''\<rparr>"

definition Upload :: service where
  "Upload = \<lparr>GoName = ''Upload'', Desc = \<lparr>FullName = ''api.Upload''\<rparr>, Methods = [Put]\<rparr>"

definition Watch :: rpcMethod where
  "Watch = \<lparr>GoName = ''Watch'',
            Desc = \<lparr>Name = ''Watch'', IsStreamingClient = False, IsStreamingServer = True\<rparr>,
            Input = exampleMessage ''Filter'', Output = exampleMessage ''Update''\<rparr>"

definition Feed :: service where
  "Feed = \<lparr>GoName = ''Feed'', Desc = \<lparr>FullName = ''api.Feed''\<rparr>, Methods = [Say, Watch]\<rparr>"

definition failing :: "string \<Rightarrow> nat world" where
  "failing f name args = (if name = f then [Host 7] else [Host 1, VNil])"

definition succeeding :: "nat world" where
  "succeeding name args =
     (if name = ''unmarshal'' \<or> name = ''stream.RecvMsg'' then [VNil]
      else if name = ''svc.Watch'' then [Host 9]
      else [Host 1, Host 2])"

definition handlerStore :: "nat store" where
  "handlerStore = [''ctx'' \<mapsto> Host 3, ''stream'' \<mapsto> Host 4]"

text \<open>A service whose unary method is written \<^verbatim>\<open>say_hello\<close> in the \<^verbatim>\<open>.proto\<close> file: protogen
  gives it the Go name \<^verbatim>\<open>SayHello\<close>.\<close>

definition SayHello :: rpcMethod where
  "SayHello = \<lparr>GoName = ''SayHello'',
          Desc = \<lparr>Name = ''say_hello'', IsStreamingClient = False, IsStreamingServer = False\<rparr>,
          Input = exampleMessage ''HelloRequest'', Output = exampleMessage ''HelloReply''\<rparr>"

definition Greeter :: service where
  "Greeter = \<lparr>GoName = ''Greeter'', Desc = \<lparr>FullName = ''api.Greeter''\<rparr>,
              Methods = [SayHello]\<rparr>"

text \<open>Stores and worlds for the runs of the bodies: a handler starts with \<^verbatim>\<open>ctx\<close> and
  \<^verbatim>\<open>stream\<close>, a client method with \<^verbatim>\<open>ctx\<close> and \<^verbatim>\<open>req\<close>.\<close>

definition clientStore :: "nat store" where
  "clientStore = [''ctx'' \<mapsto> Host 3, ''req'' \<mapsto> Host 5]"

definition refusing :: "nat world" where
  "refusing name args = [VNil, Host 7]"

definition accepting :: "nat world" where
  "accepting name args = [Host 8, VNil]"

section \<open>The loops and the parts of the output\<close>

lemma streaming_iff_shape:
  "(IsStreamingClient (Desc m) \<or> IsStreamingServer (Desc m)) = (shapeOf m \<noteq> UNARY)"
  by (cases "IsStreamingClient (Desc m)"; cases "IsStreamingServer (Desc m)")
     (simp_all add: shapeOf_def)

lemma serviceInterfaceLoop_eq:
  "serviceInterfaceLoop gen service ms methods streams =
     (map (interfaceLine gen service) ms,
      methods @ filter (\<lambda>m. shapeOf m = UNARY) ms,
      streams @ filter (\<lambda>m. shapeOf m \<noteq> UNARY) ms)"
  by (induction ms arbitrary: methods streams)
     (simp_all add: P_def interfaceLine_def streaming_iff_shape)

lemma clientInterfaceLoop_eq:
  "clientInterfaceLoop gen service ms methods streams =
     (map (clientInterfaceLine gen service) ms,
      methods @ filter (\<lambda>m. shapeOf m = UNARY) ms,
      streams @ filter (\<lambda>m. shapeOf m \<noteq> UNARY) ms)"
proof (induction ms arbitrary: methods streams)
  case Nil
  show ?case by simp
next
  case (Cons m ms)
  show ?case
  proof (cases "IsStreamingClient (Desc m) \<or> IsStreamingServer (Desc m)")
    case True
    then have "shapeOf m \<noteq> UNARY" by (simp add: streaming_iff_shape)
    with True show ?thesis
      by (simp add: Cons.IH P_def clientInterfaceLine_def)
  next
    case False
    then have "shapeOf m = UNARY" by (simp add: streaming_iff_shape)
    with False show ?thesis
      by (simp add: Cons.IH P_def clientInterfaceLine_def)
  qed
qed

lemma interfaceLine_shape:
  "interfaceLine gen service m =
     GoName m @ serverSignature (shapeOf m) (ident_context gen)
       (QualifiedGoIdent gen (GoIdent (Input m))) (QualifiedGoIdent gen (GoIdent (Output m)))
       (GoName service @ ''_'' @ GoName m @ ''Server'')"
  by (cases "IsStreamingClient (Desc m)"; cases "IsStreamingServer (Desc m)")
     (simp_all add: interfaceLine_def interfaceSendArgs_def interfaceRetArgs_def
        serverSignature_def shapeOf_def)

text \<open>The output of \<^verbatim>\<open>genService\<close>, part after part, with the two slices written as
  filters of \<^verbatim>\<open>service.Methods\<close>.\<close>

lemma genService_eq:
  "genService gen service =
     (let methods = filter (\<lambda>m. shapeOf m = UNARY) (Methods service);
          streams = filter (\<lambda>m. shapeOf m \<noteq> UNARY) (Methods service) in
      P [''type '', GoName service @ ''Service'', '' interface{''] @
      map (interfaceLine gen service) (Methods service) @
      P [''}''] @ P [] @
      concat (map (serverStream gen service) streams) @
      registration gen service methods streams @
      snd (clientInterfaceDecl gen service methods streams) @
      clientStruct gen service (fst (clientInterfaceDecl gen service methods streams)) @
      concat (map (clientMethod gen service) (Methods service)))"
  by (simp add: genService_def serviceInterfaceLoop_eq Let_def split: prod.splits)

section \<open>Classification\<close>

text \<open>
  C10. The shape of a method is a function of its two streaming flags alone: the four pairs
  of flags go to UNARY, CLIENT_STREAM, SERVER_STREAM and BIDI_STREAM, and two pairs with the
  same shape are the same pair. The generator follows it: the loop of lines 115 to 134 puts
  the methods of shape UNARY in \<^verbatim>\<open>methods\<close> and all others in \<^verbatim>\<open>streams\<close>, in the order
  of the service, and the second loop that classifies (lines 242 to 259) ends with the same
  two slices.
\<close>

theorem classify_shapes:
  "classify False False = UNARY \<and> classify True False = CLIENT_STREAM \<and>
   classify False True = SERVER_STREAM \<and> classify True True = BIDI_STREAM \<and>
   (classify c s = classify c' s' \<longleftrightarrow> c = c' \<and> s = s') \<and>
   snd (serviceInterfaceLoop gen service ms [] []) =
     (filter (\<lambda>m. shapeOf m = UNARY) ms, filter (\<lambda>m. shapeOf m \<noteq> UNARY) ms) \<and>
   snd (clientInterfaceLoop gen service ms [] []) =
     snd (serviceInterfaceLoop gen service ms [] [])"
  by (cases c; cases s; cases c'; cases s')
     (simp_all add: serviceInterfaceLoop_eq clientInterfaceLoop_eq)

section \<open>The service interface\<close>

text \<open>
  C4. The output of \<^verbatim>\<open>genService\<close> starts with the service interface: its header, then
  one line for each method of the service, in order, then the closing brace and an empty
  line. The line of a method is its Go name followed by the signature that the table of the
  specification gives for the shape of the method.
\<close>

theorem service_interface_signatures:
  "prefix
     ((''type '' @ GoName service @ ''Service interface{'') #
      map (\<lambda>m. GoName m @
             serverSignature (shapeOf m) (ident_context gen)
               (QualifiedGoIdent gen (GoIdent (Input m)))
               (QualifiedGoIdent gen (GoIdent (Output m)))
               (GoName service @ ''_'' @ GoName m @ ''Server''))
        (Methods service) @
      [''}'', []])
     (genService gen service)"
proof -
  have "interfaceLine gen service =
        (\<lambda>m. GoName m @
             serverSignature (shapeOf m) (ident_context gen)
               (QualifiedGoIdent gen (GoIdent (Input m)))
               (QualifiedGoIdent gen (GoIdent (Output m)))
               (GoName service @ ''_'' @ GoName m @ ''Server''))"
    by (rule ext) (rule interfaceLine_shape)
  then show ?thesis
    by (simp add: genService_eq Let_def P_def)
qed

section \<open>The stream wrappers\<close>

text \<open>Where the blocks of a method stand in the output, and which lines of a block start
  as a method does. The name that \<^verbatim>\<open>QualifiedGoIdent\<close> gave to the embedded stream type
  is a line of each block: it is an identifier, with or without a package, and has no
  parenthesis.\<close>

lemma no_paren_not_prefix:
  "CHR ''('' \<notin> set l \<Longrightarrow> CHR ''('' \<in> set p \<Longrightarrow> \<not> prefix p l"
  using set_mono_prefix by blast

lemma sublist_concat_map: "x \<in> set xs \<Longrightarrow> sublist (f x) (concat (map f xs))"
proof -
  assume "x \<in> set xs"
  then obtain ys zs where "xs = ys @ x # zs" by (auto dest: split_list)
  then have "concat (map f xs) = concat (map f ys) @ f x @ concat (map f zs)" by simp
  then show ?thesis by (metis sublist_appendI)
qed

lemma sublist_sublist: "sublist xs ys \<Longrightarrow> sublist ys zs \<Longrightarrow> sublist xs zs"
proof -
  assume "sublist xs ys" and "sublist ys zs"
  then obtain a b c d where "ys = a @ xs @ b" and "zs = c @ ys @ d"
    by (auto simp: sublist_def)
  then have "zs = (c @ a) @ xs @ (b @ d)" by simp
  then show ?thesis unfolding sublist_def by blast
qed

lemma genService_serverStream:
  assumes "m \<in> set (Methods service)"
    and "IsStreamingClient (Desc m) \<or> IsStreamingServer (Desc m)"
  shows "sublist (serverStream gen service m) (genService gen service)"
proof -
  let ?streams = "filter (\<lambda>m. shapeOf m \<noteq> UNARY) (Methods service)"
  from assms have "m \<in> set ?streams" by (simp add: streaming_iff_shape)
  then have "sublist (serverStream gen service m)
               (concat (map (serverStream gen service) ?streams))"
    by (rule sublist_concat_map)
  moreover have "sublist (concat (map (serverStream gen service) ?streams))
                   (genService gen service)"
  proof -
    obtain a b where "genService gen service =
        a @ concat (map (serverStream gen service) ?streams) @ b"
      unfolding genService_eq Let_def by (metis append.assoc)
    then show ?thesis by simp
  qed
  ultimately show ?thesis by (rule sublist_sublist)
qed

lemma genService_clientMethod:
  assumes "m \<in> set (Methods service)"
  shows "sublist (clientMethod gen service m) (genService gen service)"
proof -
  have "sublist (clientMethod gen service m)
          (concat (map (clientMethod gen service) (Methods service)))"
    using assms by (rule sublist_concat_map)
  moreover have "sublist (concat (map (clientMethod gen service) (Methods service)))
                   (genService gen service)"
  proof -
    obtain a where "genService gen service =
        a @ concat (map (clientMethod gen service) (Methods service))"
      unfolding genService_eq Let_def by (metis append.assoc)
    then show ?thesis by simp
  qed
  ultimately show ?thesis by (rule sublist_sublist)
qed

lemma server_interface_exposes:
  assumes "CHR ''('' \<notin> set (ident_streamServer gen)"
  shows "declaresMethod ''Send'' (serverStreamInterface gen service m)
           = IsStreamingServer (Desc m)"
    and "declaresMethod ''Recv'' (serverStreamInterface gen service m)
           = IsStreamingClient (Desc m)"
proof -
  have a: "\<not> prefix ''Send('' (ident_streamServer gen)"
    by (rule no_paren_not_prefix [OF assms]) simp
  have b: "\<not> prefix ''Recv('' (ident_streamServer gen)"
    by (rule no_paren_not_prefix [OF assms]) simp
  show "declaresMethod ''Send'' (serverStreamInterface gen service m)
           = IsStreamingServer (Desc m)"
    using a by (simp add: declaresMethod_def serverStreamInterface_def P_def)
  show "declaresMethod ''Recv'' (serverStreamInterface gen service m)
           = IsStreamingClient (Desc m)"
    using b by (simp add: declaresMethod_def serverStreamInterface_def P_def)
qed


lemma server_struct_exposes:
  assumes "CHR ''('' \<notin> set (ident_streamServer gen)"
  shows "definesMethod (serverStructName service m) ''Send'' (serverStreamStruct gen service m)
           = IsStreamingServer (Desc m)"
    and "definesMethod (serverStructName service m) ''Recv'' (serverStreamStruct gen service m)
           = IsStreamingClient (Desc m)"
proof -
  let ?t = "serverStructName service m"
  have a: "\<not> prefix (''func (x *'' @ ?t @ '') Send('') (ident_streamServer gen)"
    by (rule no_paren_not_prefix [OF assms]) simp
  have b: "\<not> prefix (''func (x *'' @ ?t @ '') Recv('') (ident_streamServer gen)"
    by (rule no_paren_not_prefix [OF assms]) simp
  show "definesMethod ?t ''Send'' (serverStreamStruct gen service m)
           = IsStreamingServer (Desc m)"
    using a by (simp add: definesMethod_def serverStreamStruct_def P_def Let_def)
  show "definesMethod ?t ''Recv'' (serverStreamStruct gen service m)
           = IsStreamingClient (Desc m)"
    using b by (simp add: definesMethod_def serverStreamStruct_def P_def Let_def)
qed

lemma client_interface_exposes:
  assumes "CHR ''('' \<notin> set (ident_streamClient gen)"
  shows "declaresMethod ''Send'' (clientStreamInterface gen service m)
           = IsStreamingClient (Desc m)"
    and "declaresMethod ''Recv'' (clientStreamInterface gen service m)
           = IsStreamingServer (Desc m)"
    and "declaresMethod ''CloseAndRecv'' (clientStreamInterface gen service m)
           = (\<not> IsStreamingServer (Desc m))"
proof -
  have a: "\<not> prefix ''Send('' (ident_streamClient gen)"
    by (rule no_paren_not_prefix [OF assms]) simp
  have b: "\<not> prefix ''Recv('' (ident_streamClient gen)"
    by (rule no_paren_not_prefix [OF assms]) simp
  have c: "\<not> prefix ''CloseAndRecv('' (ident_streamClient gen)"
    by (rule no_paren_not_prefix [OF assms]) simp
  show "declaresMethod ''Send'' (clientStreamInterface gen service m)
           = IsStreamingClient (Desc m)"
    using a by (simp add: declaresMethod_def clientStreamInterface_def P_def Let_def)
  show "declaresMethod ''Recv'' (clientStreamInterface gen service m)
           = IsStreamingServer (Desc m)"
    using b by (simp add: declaresMethod_def clientStreamInterface_def P_def Let_def)
  show "declaresMethod ''CloseAndRecv'' (clientStreamInterface gen service m)
           = (\<not> IsStreamingServer (Desc m))"
    using c by (simp add: declaresMethod_def clientStreamInterface_def P_def Let_def)
qed

lemma client_struct_exposes:
  assumes "CHR ''('' \<notin> set (ident_streamClient gen)"
  shows "definesMethod (clientStructName service m) ''Send'' (clientStreamStruct gen service m)
           = IsStreamingClient (Desc m)"
    and "definesMethod (clientStructName service m) ''Recv'' (clientStreamStruct gen service m)
           = IsStreamingServer (Desc m)"
    and "definesMethod (clientStructName service m) ''CloseAndRecv''
           (clientStreamStruct gen service m) = (\<not> IsStreamingServer (Desc m))"
proof -
  let ?t = "clientStructName service m"
  have a: "\<not> prefix (''func (x *'' @ ?t @ '') Send('') (ident_streamClient gen)"
    by (rule no_paren_not_prefix [OF assms]) simp
  have b: "\<not> prefix (''func (x *'' @ ?t @ '') Recv('') (ident_streamClient gen)"
    by (rule no_paren_not_prefix [OF assms]) simp
  have c: "\<not> prefix (''func (x *'' @ ?t @ '') CloseAndRecv('') (ident_streamClient gen)"
    by (rule no_paren_not_prefix [OF assms]) simp
  show "definesMethod ?t ''Send'' (clientStreamStruct gen service m)
           = IsStreamingClient (Desc m)"
    using a by (simp add: definesMethod_def clientStreamStruct_def P_def Let_def)
  show "definesMethod ?t ''Recv'' (clientStreamStruct gen service m)
           = IsStreamingServer (Desc m)"
    using b by (simp add: definesMethod_def clientStreamStruct_def P_def Let_def)
  show "definesMethod ?t ''CloseAndRecv'' (clientStreamStruct gen service m)
           = (\<not> IsStreamingServer (Desc m))"
    using c by (simp add: definesMethod_def clientStreamStruct_def P_def Let_def)
qed

lemma genService_clientStream:
  assumes "m \<in> set (Methods service)"
    and "IsStreamingClient (Desc m) \<or> IsStreamingServer (Desc m)"
  shows "sublist (clientStreamInterface gen service m @ clientStreamStruct gen service m)
           (genService gen service)"
proof -
  have "sublist (clientStreamInterface gen service m @ clientStreamStruct gen service m)
          (clientMethod gen service m)"
  proof -
    have "clientMethod gen service m =
            (clientMethodHeader gen service m @ clientStreamCall gen service m) @
            (clientStreamInterface gen service m @ clientStreamStruct gen service m)"
      using assms(2) by (simp add: clientMethod_def)
    then show ?thesis by (metis sublist_append_leftI)
  qed
  then show ?thesis
    using genService_clientMethod [OF assms(1)] by (rule sublist_sublist)
qed

text \<open>
  C2. For every streaming method of a service, the output of \<^verbatim>\<open>genService\<close> holds the
  server stream interface followed by the server wrapper struct and its methods, and the
  client stream interface followed by the client wrapper struct and its methods. On the
  server side, the interface declares and the struct defines \<^verbatim>\<open>Send\<close> exactly when the
  method is server-streaming, and \<^verbatim>\<open>Recv\<close> exactly when it is client-streaming. On the
  client side, they declare and define \<^verbatim>\<open>Send\<close> exactly when the method is
  client-streaming, \<^verbatim>\<open>Recv\<close> exactly when it is server-streaming, and
  \<^verbatim>\<open>CloseAndRecv\<close> exactly when it is not server-streaming.
\<close>

theorem stream_wrappers_expose:
  assumes "m \<in> set (Methods service)"
    and "IsStreamingClient (Desc m) \<or> IsStreamingServer (Desc m)"
    and "CHR ''('' \<notin> set (ident_streamServer gen)"
    and "CHR ''('' \<notin> set (ident_streamClient gen)"
  shows "sublist (serverStreamInterface gen service m @ serverStreamStruct gen service m)
           (genService gen service) \<and>
         sublist (clientStreamInterface gen service m @ clientStreamStruct gen service m)
           (genService gen service) \<and>
         declaresMethod ''Send'' (serverStreamInterface gen service m)
           = IsStreamingServer (Desc m) \<and>
         declaresMethod ''Recv'' (serverStreamInterface gen service m)
           = IsStreamingClient (Desc m) \<and>
         definesMethod (ToLower (GoName service) @ GoName m @ ''Server'') ''Send''
           (serverStreamStruct gen service m) = IsStreamingServer (Desc m) \<and>
         definesMethod (ToLower (GoName service) @ GoName m @ ''Server'') ''Recv''
           (serverStreamStruct gen service m) = IsStreamingClient (Desc m) \<and>
         declaresMethod ''Send'' (clientStreamInterface gen service m)
           = IsStreamingClient (Desc m) \<and>
         declaresMethod ''Recv'' (clientStreamInterface gen service m)
           = IsStreamingServer (Desc m) \<and>
         declaresMethod ''CloseAndRecv'' (clientStreamInterface gen service m)
           = (\<not> IsStreamingServer (Desc m)) \<and>
         definesMethod (ToLower (GoName service) @ GoName m @ ''Client'') ''Send''
           (clientStreamStruct gen service m) = IsStreamingClient (Desc m) \<and>
         definesMethod (ToLower (GoName service) @ GoName m @ ''Client'') ''Recv''
           (clientStreamStruct gen service m) = IsStreamingServer (Desc m) \<and>
         definesMethod (ToLower (GoName service) @ GoName m @ ''Client'') ''CloseAndRecv''
           (clientStreamStruct gen service m) = (\<not> IsStreamingServer (Desc m))"
proof -
  have "sublist (serverStreamInterface gen service m @ serverStreamStruct gen service m)
          (genService gen service)"
    using genService_serverStream [OF assms(1,2)] by (simp add: serverStream_def)
  then show ?thesis
    using genService_clientStream [OF assms(1,2)]
      server_interface_exposes [OF assms(3), of service m]
      server_struct_exposes [OF assms(3), of service m]
      client_interface_exposes [OF assms(4), of service m]
      client_struct_exposes [OF assms(4), of service m]
    by (simp add: serverStructName_def clientStructName_def)
qed

theorem stream_wrappers_expose_witness:
  "Put \<in> set (Methods Upload) \<and>
   (IsStreamingClient (Desc Put) \<or> IsStreamingServer (Desc Put)) \<and>
   CHR ''('' \<notin> set (ident_streamServer exampleGen) \<and>
   CHR ''('' \<notin> set (ident_streamClient exampleGen) \<and>
   sublist (serverStreamInterface exampleGen Upload Put @ serverStreamStruct exampleGen Upload Put)
     (genService exampleGen Upload) \<and>
   sublist (clientStreamInterface exampleGen Upload Put @ clientStreamStruct exampleGen Upload Put)
     (genService exampleGen Upload) \<and>
   \<not> declaresMethod ''Send'' (serverStreamInterface exampleGen Upload Put) \<and>
   declaresMethod ''Recv'' (serverStreamInterface exampleGen Upload Put) \<and>
   \<not> definesMethod ''uploadPutServer'' ''Send'' (serverStreamStruct exampleGen Upload Put) \<and>
   definesMethod ''uploadPutServer'' ''Recv'' (serverStreamStruct exampleGen Upload Put) \<and>
   declaresMethod ''Send'' (clientStreamInterface exampleGen Upload Put) \<and>
   \<not> declaresMethod ''Recv'' (clientStreamInterface exampleGen Upload Put) \<and>
   declaresMethod ''CloseAndRecv'' (clientStreamInterface exampleGen Upload Put) \<and>
   definesMethod ''uploadPutClient'' ''Send'' (clientStreamStruct exampleGen Upload Put) \<and>
   \<not> definesMethod ''uploadPutClient'' ''Recv'' (clientStreamStruct exampleGen Upload Put) \<and>
   definesMethod ''uploadPutClient'' ''CloseAndRecv'' (clientStreamStruct exampleGen Upload Put)"
proof -
  have h1: "Put \<in> set (Methods Upload)" by (simp add: Upload_def)
  have h2: "IsStreamingClient (Desc Put) \<or> IsStreamingServer (Desc Put)"
    by (simp add: Put_def)
  have h3: "CHR ''('' \<notin> set (ident_streamServer exampleGen)"
    by (simp add: exampleGen_def newGenerator_def qualifiedIn_def baseName_def ttrpcIdent_def)
  have h4: "CHR ''('' \<notin> set (ident_streamClient exampleGen)"
    by (simp add: exampleGen_def newGenerator_def qualifiedIn_def baseName_def ttrpcIdent_def)
  have n: "ToLower (GoName Upload) @ GoName Put @ ''Server'' = ''uploadPutServer''"
    "ToLower (GoName Upload) @ GoName Put @ ''Client'' = ''uploadPutClient''"
    by (simp_all add: Upload_def Put_def ToLower_def lowerChar_def)
  have f: "IsStreamingClient (Desc Put)" "\<not> IsStreamingServer (Desc Put)"
    by (simp_all add: Put_def)
  show ?thesis
    using stream_wrappers_expose [OF h1 h2 h3 h4] h1 h2 h3 h4 f
    by (simp add: n)
qed

section \<open>The keys of the registration\<close>



lemma takeWhile_until: "c \<notin> set k \<Longrightarrow> takeWhile (\<lambda>x. x \<noteq> c) (k @ c # rest) = k"
  by (induction k) auto

lemma dropWhile_until: "c \<notin> set k \<Longrightarrow> dropWhile (\<lambda>x. x \<noteq> c) (k @ c # rest) = c # rest"
  by (induction k) auto

lemma quoted_literal:
  \<open>CHR 0x22 \<notin> set k \<Longrightarrow> quoted (''"'' @ k @ ''"'' @ rest) = Some k\<close>
  by (simp add: quoted_def takeWhile_until)

lemma afterQuoted_literal:
  \<open>CHR 0x22 \<notin> set k \<Longrightarrow> afterQuoted (''"'' @ k @ ''"'' @ rest) = rest\<close>
  by (simp add: afterQuoted_def dropWhile_until)





lemma concat_singletons: "concat (map (\<lambda>x. [f x]) xs) = map f xs"
  by (induction xs) simp_all







lemma registrationOf_eq:
  "registrationOf gen service =
     registration gen service (filter (\<lambda>m. shapeOf m = UNARY) (Methods service))
       (filter (\<lambda>m. shapeOf m \<noteq> UNARY) (Methods service))"
  by (simp add: registrationOf_def serviceInterfaceLoop_eq)

lemma genService_registration: "sublist (registrationOf gen service) (genService gen service)"
proof -
  obtain a b where "genService gen service = a @ registrationOf gen service @ b"
    unfolding genService_eq registrationOf_eq Let_def by (metis append.assoc)
  then show ?thesis by simp
qed



section \<open>The maps of the registration and the client methods\<close>

text \<open>Where the entries of the two maps and the client methods stand in the output of
  \<^verbatim>\<open>genService\<close>.\<close>

lemma registration_methods_map:
  assumes "methods \<noteq> []"
  shows "sublist
           ((''Methods: map[string]'' @ ident_method gen @ ''{'') #
            concat (map (unaryHandler gen) methods) @ [''},''])
           (registration gen service methods streams)"
proof -
  obtain a b where "registration gen service methods streams =
      a @ ((''Methods: map[string]'' @ ident_method gen @ ''{'') #
            concat (map (unaryHandler gen) methods) @ [''},'']) @ b"
  proof
    show "registration gen service methods streams =
      (P [''func Register'', GoName service @ ''Service'', ''(srv *'', ident_server gen,
          '', svc '', GoName service @ ''Service'', ''){''] @
       P [''srv.RegisterService('', [CHR 0x22], FullName (Desc service), [CHR 0x22],
          '', &'', ident_serviceDesc gen, ''{'']) @
      ((''Methods: map[string]'' @ ident_method gen @ ''{'') #
            concat (map (unaryHandler gen) methods) @ [''},'']) @
      ((if length streams > 0 then
         P [''Streams: map[string]'', ident_stream gen, ''{''] @
         concat (map (streamHandler gen service) streams) @
         P [''},'']
       else []) @
      P [''})''] @ P [''}''] @ P [])"
      using assms by (simp add: registration_def Let_def P_def)
  qed
  then show ?thesis by (metis sublist_appendI)
qed

lemma registration_streams_map:
  assumes "streams \<noteq> []"
  shows "sublist
           ((''Streams: map[string]'' @ ident_stream gen @ ''{'') #
            concat (map (streamHandler gen service) streams) @ [''},''])
           (registration gen service methods streams)"
proof -
  obtain a b where "registration gen service methods streams =
      a @ ((''Streams: map[string]'' @ ident_stream gen @ ''{'') #
            concat (map (streamHandler gen service) streams) @ [''},'']) @ b"
  proof
    show "registration gen service methods streams =
      (P [''func Register'', GoName service @ ''Service'', ''(srv *'', ident_server gen,
          '', svc '', GoName service @ ''Service'', ''){''] @
       P [''srv.RegisterService('', [CHR 0x22], FullName (Desc service), [CHR 0x22],
          '', &'', ident_serviceDesc gen, ''{''] @
       (if length methods > 0 then
         P [''Methods: map[string]'', ident_method gen, ''{''] @
         concat (map (unaryHandler gen) methods) @
         P [''},'']
       else [])) @
      ((''Streams: map[string]'' @ ident_stream gen @ ''{'') #
            concat (map (streamHandler gen service) streams) @ [''},'']) @
      (P [''})''] @ P [''}''] @ P [])"
      using assms by (simp add: registration_def Let_def P_def)
  qed
  then show ?thesis by (metis sublist_appendI)
qed

lemma sublist_in_block: "sublist xs ys \<Longrightarrow> sublist xs (h # ys @ t)"
proof -
  assume "sublist xs ys"
  moreover have "sublist ys (h # ys @ t)"
    using sublist_appendI [of ys "[h]" t] by simp
  ultimately show ?thesis by (rule sublist_sublist)
qed

lemma unaryHandler_in_service:
  assumes "m \<in> set (Methods service)"
    and "\<not> IsStreamingClient (Desc m)" and "\<not> IsStreamingServer (Desc m)"
  shows "sublist (unaryHandler gen m)
           (concat (map (unaryHandler gen)
              (filter (\<lambda>m. shapeOf m = UNARY) (Methods service))))"
    and "sublist
           ((''Methods: map[string]'' @ ident_method gen @ ''{'') #
            concat (map (unaryHandler gen)
              (filter (\<lambda>m. shapeOf m = UNARY) (Methods service))) @ [''},''])
           (registrationOf gen service)"
    and "sublist (unaryHandler gen m) (genService gen service)"
proof -
  let ?U = "filter (\<lambda>m. shapeOf m = UNARY) (Methods service)"
  let ?block = "(''Methods: map[string]'' @ ident_method gen @ ''{'') #
                concat (map (unaryHandler gen) ?U) @ [''},'']"
  have "shapeOf m = UNARY"
    using assms(2,3) streaming_iff_shape [of m] by simp
  with assms(1) have mem: "m \<in> set ?U" by simp
  then show a: "sublist (unaryHandler gen m) (concat (map (unaryHandler gen) ?U))"
    by (rule sublist_concat_map)
  from mem have "?U \<noteq> []" by (metis empty_iff list.set(1))
  then show b: "sublist ?block (registrationOf gen service)"
    unfolding registrationOf_eq by (rule registration_methods_map)
  from a have "sublist (unaryHandler gen m) ?block" by (rule sublist_in_block)
  then have "sublist (unaryHandler gen m) (registrationOf gen service)"
    using b by (rule sublist_sublist)
  then show "sublist (unaryHandler gen m) (genService gen service)"
    using genService_registration by (rule sublist_sublist)
qed

lemma streamHandler_in_service:
  assumes "m \<in> set (Methods service)"
    and "IsStreamingClient (Desc m) \<or> IsStreamingServer (Desc m)"
  shows "sublist (streamHandler gen service m)
           (concat (map (streamHandler gen service)
              (filter (\<lambda>m. shapeOf m \<noteq> UNARY) (Methods service))))"
    and "sublist
           ((''Streams: map[string]'' @ ident_stream gen @ ''{'') #
            concat (map (streamHandler gen service)
              (filter (\<lambda>m. shapeOf m \<noteq> UNARY) (Methods service))) @ [''},''])
           (registrationOf gen service)"
    and "sublist (streamHandler gen service m) (genService gen service)"
proof -
  let ?S = "filter (\<lambda>m. shapeOf m \<noteq> UNARY) (Methods service)"
  let ?block = "(''Streams: map[string]'' @ ident_stream gen @ ''{'') #
                concat (map (streamHandler gen service) ?S) @ [''},'']"
  have "shapeOf m \<noteq> UNARY"
    using assms(2) streaming_iff_shape [of m] by simp
  with assms(1) have mem: "m \<in> set ?S" by simp
  then show a: "sublist (streamHandler gen service m)
                  (concat (map (streamHandler gen service) ?S))"
    by (rule sublist_concat_map)
  from mem have "?S \<noteq> []" by (metis empty_iff list.set(1))
  then show b: "sublist ?block (registrationOf gen service)"
    unfolding registrationOf_eq by (rule registration_streams_map)
  from a have "sublist (streamHandler gen service m) ?block" by (rule sublist_in_block)
  then have "sublist (streamHandler gen service m) (registrationOf gen service)"
    using b by (rule sublist_sublist)
  then show "sublist (streamHandler gen service m) (genService gen service)"
    using genService_registration by (rule sublist_sublist)
qed

lemma clientMethod_streaming:
  assumes "IsStreamingClient (Desc m) \<or> IsStreamingServer (Desc m)"
  shows "clientMethod gen service m =
           (''func (c *'' @ clientStructType service @ '') '' @ GoName m @
            ''(ctx '' @ ident_context gen @
            (if IsStreamingClient (Desc m) then []
             else '', req *'' @ QualifiedGoIdent gen (GoIdent (Input m))) @
            '') ('' @ GoName service @ ''_'' @ GoName m @ ''Client, error) {'') #
           clientStreamCall gen service m @
           clientStreamInterface gen service m @
           clientStreamStruct gen service m"
  using assms by (simp add: clientMethod_def clientMethodHeader_def P_def Let_def)

section \<open>The names of the wrapper structs\<close>








section \<open>The method name that the client sends\<close>

text \<open>The client method of a unary method passes \<^verbatim>\<open>method.Desc.Name()\<close> to \<^verbatim>\<open>Call\<close>;
  the client method of a streaming method passes \<^verbatim>\<open>method.GoName\<close> to \<^verbatim>\<open>NewStream\<close>.\<close>

lemma callMethodName_unary:
  assumes "CHR 0x22 \<notin> set (FullName (Desc service))" and "CHR 0x22 \<notin> set (Name (Desc m))"
  shows "List.map_filter callMethodName (clientUnaryCall gen service m) = [Name (Desc m)]"
proof -
  let ?rest = \<open>'', '' @ ''"'' @ Name (Desc m) @ ''"'' @ '', req, &resp); err != nil {''\<close>
  have \<open>secondQuoted ''if err := c.client.Call(ctx, ''
          (''if err := c.client.Call(ctx, '' @ ''"'' @ FullName (Desc service) @ ''"'' @ ?rest)
        = Some (Name (Desc m))\<close>
    using quoted_literal [OF assms(1), of ?rest] afterQuoted_literal [OF assms(1), of ?rest]
      quoted_literal [OF assms(2), of \<open>'', req, &resp); err != nil {''\<close>]
    by (simp add: secondQuoted_def)
  then show ?thesis
    by (simp add: clientUnaryCall_def P_def Let_def callMethodName_def secondQuoted_def)
qed

lemma newStreamMethodName_stream:
  assumes "CHR 0x22 \<notin> set (FullName (Desc service))" and "CHR 0x22 \<notin> set (GoName m)"
  shows "List.map_filter newStreamMethodName (clientStreamCall gen service m) = [GoName m]"
proof -
  let ?req = "if IsStreamingClient (Desc m) then ''nil'' else ''req''"
  let ?rest = \<open>'', '' @ ''"'' @ GoName m @ ''"'' @ '', '' @ ?req @ '')''\<close>
  have \<open>secondQuoted ''}, '' (''}, '' @ ''"'' @ FullName (Desc service) @ ''"'' @ ?rest)
        = Some (GoName m)\<close>
    using quoted_literal [OF assms(1), of ?rest] afterQuoted_literal [OF assms(1), of ?rest]
      quoted_literal [OF assms(2), of \<open>'', '' @ ?req @ '')''\<close>]
    by (simp add: secondQuoted_def)
  then show ?thesis
    by (simp add: clientStreamCall_def P_def Let_def newStreamMethodName_def secondQuoted_def)
qed

lemma genService_Greeter:
  \<open>genService exampleGen Greeter =
     [''type GreeterService interface{'',
      ''SayHello(context.Context, *HelloRequest) (*HelloReply, error)'',
      ''}'',
      '''',
      ''func RegisterGreeterService(srv *ttrpc.Server, svc GreeterService){'',
      ''srv.RegisterService("api.Greeter", &ttrpc.ServiceDesc{'',
      ''Methods: map[string]ttrpc.Method{'',
      ''"SayHello": func(ctx context.Context, unmarshal func(interface{}) error)(interface{}, error){'',
      ''var req HelloRequest'',
      ''if err := unmarshal(&req); err != nil {'',
      ''return nil, err'',
      ''}'',
      ''return svc.SayHello(ctx, &req)'',
      ''},'',
      ''},'',
      ''})'',
      ''}'',
      '''',
      ''type greeterClient struct{'',
      ''client *ttrpc.Client'',
      ''}'',
      ''func NewGreeterClient(client *ttrpc.Client)GreeterService{'',
      ''return &greeterClient{'',
      ''client:client,'',
      ''}'',
      ''}'',
      '''',
      ''func (c *greeterClient) SayHello(ctx context.Context, req *HelloRequest) (*HelloReply, error) {'',
      ''var resp HelloReply'',
      ''if err := c.client.Call(ctx, "api.Greeter", "say_hello", req, &resp); err != nil {'',
      ''return nil, err'',
      ''}'',
      ''return &resp, nil'',
      ''}'',
      '''']\<close>
proof -
  have s: "shapeOf SayHello = UNARY" by (simp add: shapeOf_def SayHello_def)
  have m: "Methods Greeter = [SayHello]" by (simp add: Greeter_def)
  have names: "GoName Greeter = ''Greeter''" "FullName (Desc Greeter) = ''api.Greeter''"
    "GoName SayHello = ''SayHello''" "Name (Desc SayHello) = ''say_hello''"
    "\<not> IsStreamingClient (Desc SayHello)" "\<not> IsStreamingServer (Desc SayHello)"
    "QualifiedGoIdent exampleGen (GoIdent (Input SayHello)) = ''HelloRequest''"
    "QualifiedGoIdent exampleGen (GoIdent (Output SayHello)) = ''HelloReply''"
    "ident_context exampleGen = ''context.Context''"
    "ident_server exampleGen = ''ttrpc.Server''"
    "ident_client exampleGen = ''ttrpc.Client''"
    "ident_method exampleGen = ''ttrpc.Method''"
    "ident_serviceDesc exampleGen = ''ttrpc.ServiceDesc''"
    by (simp_all add: Greeter_def SayHello_def exampleGen_def newGenerator_def qualifiedIn_def
        baseName_def ttrpcIdent_def exampleMessage_def)
  have t: "clientStructType Greeter = ''greeterClient''"
    by (simp add: clientStructType_def names ToLower_def lowerChar_def)
  show ?thesis
    by (simp add: genService_eq Let_def m s t names interfaceLine_def interfaceSendArgs_def
        interfaceRetArgs_def registration_def unaryHandler_def clientInterfaceDecl_def
        clientStruct_def clientMethod_def clientMethodHeader_def clientUnaryCall_def P_def)
qed

text \<open>
  C3. The claim is that the method name a generated client passes to the transport is the key
  under which the registration function registers the method. In the output of
  \<^verbatim>\<open>genService\<close> for the service \<open>Greeter\<close>, one name is passed to
  \<^verbatim>\<open>RegisterService\<close>, \<^verbatim>\<open>api.Greeter\<close>; the only key of a map entry is
  \<^verbatim>\<open>SayHello\<close>; and the only method name passed to \<^verbatim>\<open>Call\<close> is \<^verbatim>\<open>say_hello\<close>.
\<close>

theorem unary_call_name_mismatch:
  "List.map_filter registryKey (genService exampleGen Greeter) = [''api.Greeter''] \<and>
   List.map_filter mapKey (genService exampleGen Greeter) = [''SayHello''] \<and>
   List.map_filter callMethodName (genService exampleGen Greeter) = [''say_hello'']"
proof -
  have "List.map_filter registryKey (genService exampleGen Greeter) = [''api.Greeter'']"
    by (simp add: genService_Greeter registryKey_def quoted_def)
  moreover have "List.map_filter mapKey (genService exampleGen Greeter) = [''SayHello'']"
    by (simp add: genService_Greeter mapKey_def quoted_def)
  moreover have
    "List.map_filter callMethodName (genService exampleGen Greeter) = [''say_hello'']"
    by (simp add: genService_Greeter callMethodName_def secondQuoted_def quoted_def
        afterQuoted_def)
  ultimately show ?thesis by simp
qed


section \<open>Services without streaming methods\<close>

lemma interfaceLine_unary:
  assumes "\<not> IsStreamingClient (Desc m) \<and> \<not> IsStreamingServer (Desc m)"
  shows "interfaceLine gen service m = interfaceMethodDecl (unarySignature gen m)"
  using assms
  by (simp add: interfaceLine_def interfaceSendArgs_def interfaceRetArgs_def
      interfaceMethodDecl_def unarySignature_def resultList_def)

lemma clientMethod_unary:
  assumes "\<not> IsStreamingClient (Desc m) \<and> \<not> IsStreamingServer (Desc m)"
  shows "clientMethod gen service m =
           funcDecl (''c *'' @ clientStructType service) [''ctx'', ''req'']
             (unarySignature gen m) #
           clientUnaryCall gen service m"
  using assms
  by (simp add: clientMethod_def clientMethodHeader_def P_def Let_def funcDecl_def
      unarySignature_def resultList_def)

lemma no_streams_filters:
  assumes "\<forall>m\<in>set ms. \<not> IsStreamingClient (Desc m) \<and> \<not> IsStreamingServer (Desc m)"
  shows "filter (\<lambda>m. shapeOf m = UNARY) ms = ms"
    and "filter (\<lambda>m. shapeOf m \<noteq> UNARY) ms = []"
  using assms streaming_iff_shape by (induction ms) auto

text \<open>
  C8. For a service with no streaming method, the output of \<^verbatim>\<open>genService\<close> is the
  service interface, the registration function, the client struct with its constructor, and
  the client methods: there is no client interface of its own. The constructor returns the
  type that the first line declares, the service interface. The line of a method in the
  service interface and the first line of its client method are the declarations of one and
  the same signature: the Go name of the method, the parameter types context and pointer to
  the input message, the result types pointer to the output message and \<^verbatim>\<open>error\<close>.
\<close>

theorem unary_service_client_mirrors:
  assumes "\<forall>m\<in>set (Methods service).
             \<not> IsStreamingClient (Desc m) \<and> \<not> IsStreamingServer (Desc m)"
  shows "genService gen service =
           ((''type '' @ GoName service @ ''Service interface{'') #
            map (\<lambda>m. interfaceMethodDecl (unarySignature gen m)) (Methods service) @
            [''}'', []]) @
           registrationOf gen service @
           clientStruct gen service (GoName service @ ''Service'') @
           concat (map (\<lambda>m. funcDecl (''c *'' @ clientStructType service) [''ctx'', ''req'']
                               (unarySignature gen m) #
                             clientUnaryCall gen service m)
                     (Methods service)) \<and>
         clientStruct gen service (GoName service @ ''Service'') ! 3 =
           ''func New'' @ GoName service @ ''Client(client *'' @ ident_client gen @ '')'' @
           GoName service @ ''Service'' @ ''{''"
proof -
  note f = no_streams_filters [OF assms]
  have i: "map (interfaceLine gen service) (Methods service) =
           map (\<lambda>m. interfaceMethodDecl (unarySignature gen m)) (Methods service)"
    using assms by (intro map_cong refl interfaceLine_unary) simp
  have c: "map (clientMethod gen service) (Methods service) =
           map (\<lambda>m. funcDecl (''c *'' @ clientStructType service) [''ctx'', ''req'']
                       (unarySignature gen m) #
                     clientUnaryCall gen service m) (Methods service)"
    using assms by (intro map_cong refl clientMethod_unary) simp
  have d: "clientInterfaceDecl gen service (Methods service) [] =
           (GoName service @ ''Service'', [])"
    by (simp add: clientInterfaceDecl_def)
  have "genService gen service =
           ((''type '' @ GoName service @ ''Service interface{'') #
            map (\<lambda>m. interfaceMethodDecl (unarySignature gen m)) (Methods service) @
            [''}'', []]) @
           registrationOf gen service @
           clientStruct gen service (GoName service @ ''Service'') @
           concat (map (\<lambda>m. funcDecl (''c *'' @ clientStructType service) [''ctx'', ''req'']
                               (unarySignature gen m) #
                             clientUnaryCall gen service m)
                     (Methods service))"
    unfolding genService_eq registrationOf_eq Let_def f i c d
    by (simp add: P_def)
  moreover have "clientStruct gen service (GoName service @ ''Service'') ! 3 =
           ''func New'' @ GoName service @ ''Client(client *'' @ ident_client gen @ '')'' @
           GoName service @ ''Service'' @ ''{''"
    by (simp add: clientStruct_def P_def Let_def)
  ultimately show ?thesis by (rule conjI)
qed

theorem unary_service_client_mirrors_witness:
  \<open>Methods Echo = [Say] \<and>
   \<not> IsStreamingClient (Desc Say) \<and> \<not> IsStreamingServer (Desc Say) \<and>
   genService exampleGen Echo =
     [''type EchoService interface{'',
      ''Say(context.Context, *EchoRequest) (*EchoResponse, error)'',
      ''}'',
      '''',
      ''func RegisterEchoService(srv *ttrpc.Server, svc EchoService){'',
      ''srv.RegisterService("api.Echo", &ttrpc.ServiceDesc{'',
      ''Methods: map[string]ttrpc.Method{'',
      ''"Say": func(ctx context.Context, unmarshal func(interface{}) error)(interface{}, error){'',
      ''var req EchoRequest'',
      ''if err := unmarshal(&req); err != nil {'',
      ''return nil, err'',
      ''}'',
      ''return svc.Say(ctx, &req)'',
      ''},'',
      ''},'',
      ''})'',
      ''}'',
      '''',
      ''type echoClient struct{'',
      ''client *ttrpc.Client'',
      ''}'',
      ''func NewEchoClient(client *ttrpc.Client)EchoService{'',
      ''return &echoClient{'',
      ''client:client,'',
      ''}'',
      ''}'',
      '''',
      ''func (c *echoClient) Say(ctx context.Context, req *EchoRequest) (*EchoResponse, error) {'',
      ''var resp EchoResponse'',
      ''if err := c.client.Call(ctx, "api.Echo", "Say", req, &resp); err != nil {'',
      ''return nil, err'',
      ''}'',
      ''return &resp, nil'',
      ''}'',
      '''']\<close>
proof -
  have m: "Methods Echo = [Say]" by (simp add: Echo_def)
  have u: "\<not> IsStreamingClient (Desc Say) \<and> \<not> IsStreamingServer (Desc Say)"
    by (simp add: Say_def)
  have h: "\<forall>m\<in>set (Methods Echo).
             \<not> IsStreamingClient (Desc m) \<and> \<not> IsStreamingServer (Desc m)"
    using m u by simp
  have s: "shapeOf Say = UNARY" using u by (simp add: shapeOf_def)
  have names: "GoName Echo = ''Echo''" "FullName (Desc Echo) = ''api.Echo''"
    "GoName Say = ''Say''" "Name (Desc Say) = ''Say''"
    "QualifiedGoIdent exampleGen (GoIdent (Input Say)) = ''EchoRequest''"
    "QualifiedGoIdent exampleGen (GoIdent (Output Say)) = ''EchoResponse''"
    "ident_context exampleGen = ''context.Context''"
    "ident_server exampleGen = ''ttrpc.Server''"
    "ident_client exampleGen = ''ttrpc.Client''"
    "ident_method exampleGen = ''ttrpc.Method''"
    "ident_serviceDesc exampleGen = ''ttrpc.ServiceDesc''"
    by (simp_all add: Echo_def Say_def exampleGen_def newGenerator_def qualifiedIn_def
        baseName_def ttrpcIdent_def exampleMessage_def)
  have t: "clientStructType Echo = ''echoClient''"
    by (simp add: clientStructType_def names ToLower_def lowerChar_def)
  from unary_service_client_mirrors [OF h, of exampleGen]
  have "genService exampleGen Echo =
           ((''type '' @ GoName Echo @ ''Service interface{'') #
            map (\<lambda>m. interfaceMethodDecl (unarySignature exampleGen m)) (Methods Echo) @
            [''}'', []]) @
           registrationOf exampleGen Echo @
           clientStruct exampleGen Echo (GoName Echo @ ''Service'') @
           concat (map (\<lambda>m. funcDecl (''c *'' @ clientStructType Echo) [''ctx'', ''req'']
                               (unarySignature exampleGen m) #
                             clientUnaryCall exampleGen Echo m)
                     (Methods Echo))"
    by (rule conjunct1)
  then show ?thesis
    using m u
    by (simp add: registrationOf_eq s t names registration_def unaryHandler_def
        clientStruct_def clientUnaryCall_def interfaceMethodDecl_def unarySignature_def
        funcDecl_def resultList_def P_def Let_def)
qed

section \<open>The parts of a conjunction\<close>

lemma first3_of_4: "A \<and> B \<and> C \<and> D \<Longrightarrow> A \<and> B \<and> C"
  by blast

lemma last_of_4: "A \<and> B \<and> C \<and> D \<Longrightarrow> D"
  by blast

lemma first4_of_5: "A \<and> B \<and> C \<and> D \<and> E \<Longrightarrow> A \<and> B \<and> C \<and> D"
  by blast

lemma last_of_5: "A \<and> B \<and> C \<and> D \<and> E \<Longrightarrow> E"
  by blast

section \<open>The unary handlers\<close>

lemma unaryHandler_body:
  \<open>unaryHandler gen m =
     (''"'' @ GoName m @ ''": func(ctx '' @ ident_context gen @
        '', unmarshal func(interface{}) error)(interface{}, error){'') #
     concat (map render
       (unaryHandlerBody (QualifiedGoIdent gen (GoIdent (Input m))) (GoName m))) @
     [''},''] \<and>
   (st ''ctx'' = Some ctx \<and> w ''unmarshal'' [PtrTo ''req'' inp] = [e] \<and> e \<noteq> VNil \<longrightarrow>
      exec w st (unaryHandlerBody inp name) =
        ([Call ''unmarshal'' [PtrTo ''req'' inp]], Returned [VNil, e])) \<and>
   (st ''ctx'' = Some ctx \<and> w ''unmarshal'' [PtrTo ''req'' inp] = [VNil] \<longrightarrow>
      exec w st (unaryHandlerBody inp name) =
        ([Call ''unmarshal'' [PtrTo ''req'' inp],
          Call (''svc.'' @ name) [ctx, PtrTo ''req'' inp]],
         Returned (w (''svc.'' @ name) [ctx, PtrTo ''req'' inp])))\<close>
  by (simp add: unaryHandler_def unaryHandlerBody_def P_def evals_def after_def)

text \<open>
  C6. The entry that the registration function holds for a unary method is the key, the
  header of the closure, the three statements of \<open>unaryHandlerBody\<close> for the input type
  and the Go name of the method, and the closing line. Run in any world, these statements
  first call \<^verbatim>\<open>unmarshal\<close> with the address of the variable \<^verbatim>\<open>req\<close> of the input
  type. If the call returns an error, the body returns \<^verbatim>\<open>nil\<close> and this error, and
  calls nothing else. If it returns \<^verbatim>\<open>nil\<close>, the body calls the method of the service
  once, with the context and the same address, and returns the values of this call as they
  are. For every unary method of a service, the entry is one of the entries of the
  \<^verbatim>\<open>Methods\<close> map, which holds the entries of the unary methods of the service and stands
  in the registration function, a part of the output of \<^verbatim>\<open>genService\<close>.
\<close>

theorem unary_handler:
  \<open>unaryHandler gen m =
     (''"'' @ GoName m @ ''": func(ctx '' @ ident_context gen @
        '', unmarshal func(interface{}) error)(interface{}, error){'') #
     concat (map render
       (unaryHandlerBody (QualifiedGoIdent gen (GoIdent (Input m))) (GoName m))) @
     [''},''] \<and>
   (st ''ctx'' = Some ctx \<and> w ''unmarshal'' [PtrTo ''req'' inp] = [e] \<and> e \<noteq> VNil \<longrightarrow>
      exec w st (unaryHandlerBody inp name) =
        ([Call ''unmarshal'' [PtrTo ''req'' inp]], Returned [VNil, e])) \<and>
   (st ''ctx'' = Some ctx \<and> w ''unmarshal'' [PtrTo ''req'' inp] = [VNil] \<longrightarrow>
      exec w st (unaryHandlerBody inp name) =
        ([Call ''unmarshal'' [PtrTo ''req'' inp],
          Call (''svc.'' @ name) [ctx, PtrTo ''req'' inp]],
         Returned (w (''svc.'' @ name) [ctx, PtrTo ''req'' inp]))) \<and>
   (m \<in> set (Methods service) \<and>
    \<not> IsStreamingClient (Desc m) \<and> \<not> IsStreamingServer (Desc m) \<longrightarrow>
      sublist (unaryHandler gen m)
        (concat (map (unaryHandler gen)
           (filter (\<lambda>m. shapeOf m = UNARY) (Methods service)))) \<and>
      sublist
        ((''Methods: map[string]'' @ ident_method gen @ ''{'') #
         concat (map (unaryHandler gen)
           (filter (\<lambda>m. shapeOf m = UNARY) (Methods service))) @ [''},''])
        (registrationOf gen service) \<and>
      sublist (registrationOf gen service) (genService gen service) \<and>
      sublist (unaryHandler gen m) (genService gen service))\<close>
proof -
  have link: \<open>m \<in> set (Methods service) \<and>
    \<not> IsStreamingClient (Desc m) \<and> \<not> IsStreamingServer (Desc m) \<longrightarrow>
      sublist (unaryHandler gen m)
        (concat (map (unaryHandler gen)
           (filter (\<lambda>m. shapeOf m = UNARY) (Methods service)))) \<and>
      sublist
        ((''Methods: map[string]'' @ ident_method gen @ ''{'') #
         concat (map (unaryHandler gen)
           (filter (\<lambda>m. shapeOf m = UNARY) (Methods service))) @ [''},''])
        (registrationOf gen service) \<and>
      sublist (registrationOf gen service) (genService gen service) \<and>
      sublist (unaryHandler gen m) (genService gen service)\<close>
    using unaryHandler_in_service [of m service gen] genService_registration [of gen service]
    by blast
  from unaryHandler_body [where gen = gen and m = m and st = st and ctx = ctx and w = w and inp = inp
      and e = e and name = name] link
  show ?thesis by - (elim conjE, intro conjI, assumption+)
qed

theorem unary_handler_witness:
  \<open>handlerStore ''ctx'' = Some (Host 3) \<and>
   failing ''unmarshal'' ''unmarshal'' [PtrTo ''req'' ''EchoRequest''] = [Host 7] \<and>
   Host 7 \<noteq> (VNil :: nat val) \<and>
   exec (failing ''unmarshal'') handlerStore (unaryHandlerBody ''EchoRequest'' ''Say'') =
     ([Call ''unmarshal'' [PtrTo ''req'' ''EchoRequest'']], Returned [VNil, Host 7]) \<and>
   succeeding ''unmarshal'' [PtrTo ''req'' ''EchoRequest''] = [VNil] \<and>
   exec succeeding handlerStore (unaryHandlerBody ''EchoRequest'' ''Say'') =
     ([Call ''unmarshal'' [PtrTo ''req'' ''EchoRequest''],
       Call ''svc.Say'' [Host 3, PtrTo ''req'' ''EchoRequest'']],
      Returned [Host 1, Host 2]) \<and>
   unaryHandler exampleGen Say =
     [''"Say": func(ctx context.Context, unmarshal func(interface{}) error)(interface{}, error){'',
      ''var req EchoRequest'',
      ''if err := unmarshal(&req); err != nil {'',
      ''return nil, err'',
      ''}'',
      ''return svc.Say(ctx, &req)'',
      ''},''] \<and>
   Say \<in> set (Methods Echo) \<and>
   \<not> IsStreamingClient (Desc Say) \<and> \<not> IsStreamingServer (Desc Say) \<and>
   sublist
     ((''Methods: map[string]'' @ ident_method exampleGen @ ''{'') #
      concat (map (unaryHandler exampleGen)
        (filter (\<lambda>m. shapeOf m = UNARY) (Methods Echo))) @ [''},''])
     (registrationOf exampleGen Echo) \<and>
   sublist (registrationOf exampleGen Echo) (genService exampleGen Echo) \<and>
   sublist (unaryHandler exampleGen Say) (genService exampleGen Echo)\<close>
proof -
  have h: "Say \<in> set (Methods Echo)" "\<not> IsStreamingClient (Desc Say)"
    "\<not> IsStreamingServer (Desc Say)"
    by (simp_all add: Echo_def Say_def)
  have runs: \<open>handlerStore ''ctx'' = Some (Host 3) \<and>
   failing ''unmarshal'' ''unmarshal'' [PtrTo ''req'' ''EchoRequest''] = [Host 7] \<and>
   Host 7 \<noteq> (VNil :: nat val) \<and>
   exec (failing ''unmarshal'') handlerStore (unaryHandlerBody ''EchoRequest'' ''Say'') =
     ([Call ''unmarshal'' [PtrTo ''req'' ''EchoRequest'']], Returned [VNil, Host 7]) \<and>
   succeeding ''unmarshal'' [PtrTo ''req'' ''EchoRequest''] = [VNil] \<and>
   exec succeeding handlerStore (unaryHandlerBody ''EchoRequest'' ''Say'') =
     ([Call ''unmarshal'' [PtrTo ''req'' ''EchoRequest''],
       Call ''svc.Say'' [Host 3, PtrTo ''req'' ''EchoRequest'']],
      Returned [Host 1, Host 2]) \<and>
   unaryHandler exampleGen Say =
     [''"Say": func(ctx context.Context, unmarshal func(interface{}) error)(interface{}, error){'',
      ''var req EchoRequest'',
      ''if err := unmarshal(&req); err != nil {'',
      ''return nil, err'',
      ''}'',
      ''return svc.Say(ctx, &req)'',
      ''},'']\<close>
    using unary_handler [where gen = exampleGen and m = Say and st = handlerStore
        and ctx = "Host 3" and w = "failing ''unmarshal''" and inp = "''EchoRequest''"
        and e = "Host 7" and name = "''Say''" and service = Echo, THEN first3_of_4]
      unary_handler [where gen = exampleGen and m = Say and st = handlerStore
        and ctx = "Host 3" and w = succeeding and inp = "''EchoRequest''"
        and e = "Host 7" and name = "''Say''" and service = Echo, THEN first3_of_4]
    by (simp add: handlerStore_def failing_def succeeding_def exampleGen_def newGenerator_def
        qualifiedIn_def baseName_def Say_def exampleMessage_def unaryHandlerBody_def
        ttrpcIdent_def)
  have links: \<open>sublist
     ((''Methods: map[string]'' @ ident_method exampleGen @ ''{'') #
      concat (map (unaryHandler exampleGen)
        (filter (\<lambda>m. shapeOf m = UNARY) (Methods Echo))) @ [''},''])
     (registrationOf exampleGen Echo) \<and>
   sublist (registrationOf exampleGen Echo) (genService exampleGen Echo) \<and>
   sublist (unaryHandler exampleGen Say) (genService exampleGen Echo)\<close>
    using unary_handler [where gen = exampleGen and m = Say and st = handlerStore
        and ctx = "Host 3" and w = succeeding and inp = "''EchoRequest''"
        and e = "Host 7" and name = "''Say''" and service = Echo, THEN last_of_4] h
    by blast
  from runs links h show ?thesis by - (elim conjE, intro conjI, assumption+)
qed

section \<open>The stream handlers\<close>

lemma streamHandler_body:
  \<open>streamHandler gen service m =
     [''"'' @ GoName m @ ''": {'',
      ''Handler: func(ctx '' @ ident_context gen @ '', stream '' @ ident_streamServer gen @
        '') (interface{}, error) {''] @
     concat (map render
       (streamHandlerBody (IsStreamingClient (Desc m)) (IsStreamingServer (Desc m))
          (QualifiedGoIdent gen (GoIdent (Input m))) (GoName m)
          (ToLower (GoName service) @ GoName m @ ''Server''))) @
     [''},'',
      ''StreamingClient: '' @ goBool (IsStreamingClient (Desc m)) @ '','',
      ''StreamingServer: '' @ goBool (IsStreamingServer (Desc m)) @ '','',
      ''},''] \<and>
   (\<not> c \<and> st ''ctx'' = Some ctx \<and> st ''stream'' = Some stream \<and>
    w ''stream.RecvMsg'' [PtrNew inp] = [e] \<and> e \<noteq> VNil \<longrightarrow>
      exec w st (streamHandlerBody c s inp name structName) =
        ([Call ''stream.RecvMsg'' [PtrNew inp]], Returned [VNil, e])) \<and>
   (\<not> c \<and> st ''ctx'' = Some ctx \<and> st ''stream'' = Some stream \<and>
    w ''stream.RecvMsg'' [PtrNew inp] = [VNil] \<longrightarrow>
      exec w st (streamHandlerBody c s inp name structName) =
        ([Call ''stream.RecvMsg'' [PtrNew inp],
          Call (''svc.'' @ name) [ctx, PtrNew inp, Wrapper structName stream]],
         Returned ((if s then [VNil] else []) @
                   w (''svc.'' @ name) [ctx, PtrNew inp, Wrapper structName stream]))) \<and>
   (c \<and> st ''ctx'' = Some ctx \<and> st ''stream'' = Some stream \<longrightarrow>
      exec w st (streamHandlerBody c s inp name structName) =
        ([Call (''svc.'' @ name) [ctx, Wrapper structName stream]],
         Returned ((if s then [VNil] else []) @
                   w (''svc.'' @ name) [ctx, Wrapper structName stream])))\<close>
  by (cases "IsStreamingClient (Desc m)"; cases "IsStreamingServer (Desc m)"; cases s)
     (simp_all add: streamHandler_def streamHandlerBody_def P_def evals_def after_def
        goBool_def)

text \<open>
  C5. The entry that the registration function holds for a streaming method is the key, the
  header of the handler, the statements of \<open>streamHandlerBody\<close>, and the two flags of the
  method as Go booleans. When the method is not client-streaming, the statements receive one
  message from the stream into a new value of the input type; if this fails, the body returns
  \<^verbatim>\<open>nil\<close> and the error and does not call the service; otherwise it calls the method of
  the service once, with the context, the message and the wrapper around the stream. When
  the method is client-streaming, the only call is the call of the method of the service,
  with the context and the wrapper. The values of the call are returned as they are, behind
  a \<^verbatim>\<open>nil\<close> when the method is server-streaming. For every streaming method of a
  service, the entry is one of the entries of the \<^verbatim>\<open>Streams\<close> map, which holds the
  entries of the streaming methods of the service and stands in the registration function, a
  part of the output of \<^verbatim>\<open>genService\<close>.
\<close>

theorem stream_handler:
  \<open>streamHandler gen service m =
     [''"'' @ GoName m @ ''": {'',
      ''Handler: func(ctx '' @ ident_context gen @ '', stream '' @ ident_streamServer gen @
        '') (interface{}, error) {''] @
     concat (map render
       (streamHandlerBody (IsStreamingClient (Desc m)) (IsStreamingServer (Desc m))
          (QualifiedGoIdent gen (GoIdent (Input m))) (GoName m)
          (ToLower (GoName service) @ GoName m @ ''Server''))) @
     [''},'',
      ''StreamingClient: '' @ goBool (IsStreamingClient (Desc m)) @ '','',
      ''StreamingServer: '' @ goBool (IsStreamingServer (Desc m)) @ '','',
      ''},''] \<and>
   (\<not> c \<and> st ''ctx'' = Some ctx \<and> st ''stream'' = Some stream \<and>
    w ''stream.RecvMsg'' [PtrNew inp] = [e] \<and> e \<noteq> VNil \<longrightarrow>
      exec w st (streamHandlerBody c s inp name structName) =
        ([Call ''stream.RecvMsg'' [PtrNew inp]], Returned [VNil, e])) \<and>
   (\<not> c \<and> st ''ctx'' = Some ctx \<and> st ''stream'' = Some stream \<and>
    w ''stream.RecvMsg'' [PtrNew inp] = [VNil] \<longrightarrow>
      exec w st (streamHandlerBody c s inp name structName) =
        ([Call ''stream.RecvMsg'' [PtrNew inp],
          Call (''svc.'' @ name) [ctx, PtrNew inp, Wrapper structName stream]],
         Returned ((if s then [VNil] else []) @
                   w (''svc.'' @ name) [ctx, PtrNew inp, Wrapper structName stream]))) \<and>
   (c \<and> st ''ctx'' = Some ctx \<and> st ''stream'' = Some stream \<longrightarrow>
      exec w st (streamHandlerBody c s inp name structName) =
        ([Call (''svc.'' @ name) [ctx, Wrapper structName stream]],
         Returned ((if s then [VNil] else []) @
                   w (''svc.'' @ name) [ctx, Wrapper structName stream]))) \<and>
   (m \<in> set (Methods service) \<and>
    (IsStreamingClient (Desc m) \<or> IsStreamingServer (Desc m)) \<longrightarrow>
      sublist (streamHandler gen service m)
        (concat (map (streamHandler gen service)
           (filter (\<lambda>m. shapeOf m \<noteq> UNARY) (Methods service)))) \<and>
      sublist
        ((''Streams: map[string]'' @ ident_stream gen @ ''{'') #
         concat (map (streamHandler gen service)
           (filter (\<lambda>m. shapeOf m \<noteq> UNARY) (Methods service))) @ [''},''])
        (registrationOf gen service) \<and>
      sublist (registrationOf gen service) (genService gen service) \<and>
      sublist (streamHandler gen service m) (genService gen service))\<close>
proof -
  have link: \<open>(m \<in> set (Methods service) \<and>
    (IsStreamingClient (Desc m) \<or> IsStreamingServer (Desc m)) \<longrightarrow>
      sublist (streamHandler gen service m)
        (concat (map (streamHandler gen service)
           (filter (\<lambda>m. shapeOf m \<noteq> UNARY) (Methods service)))) \<and>
      sublist
        ((''Streams: map[string]'' @ ident_stream gen @ ''{'') #
         concat (map (streamHandler gen service)
           (filter (\<lambda>m. shapeOf m \<noteq> UNARY) (Methods service))) @ [''},''])
        (registrationOf gen service) \<and>
      sublist (registrationOf gen service) (genService gen service) \<and>
      sublist (streamHandler gen service m) (genService gen service))\<close>
    using streamHandler_in_service [of m service gen] genService_registration [of gen service]
    by blast
  from streamHandler_body [where gen = gen and service = service and m = m and c = c and st = st
      and ctx = ctx and stream = stream and w = w and inp = inp and e = e and s = s
      and name = name and structName = structName] link
  show ?thesis by - (elim conjE, intro conjI, assumption+)
qed

theorem stream_handler_witness:
  \<open>handlerStore ''ctx'' = Some (Host 3) \<and> handlerStore ''stream'' = Some (Host 4) \<and>
   failing ''stream.RecvMsg'' ''stream.RecvMsg'' [PtrNew ''Filter''] = [Host 7] \<and>
   Host 7 \<noteq> (VNil :: nat val) \<and>
   exec (failing ''stream.RecvMsg'') handlerStore
     (streamHandlerBody False True ''Filter'' ''Watch'' ''feedWatchServer'') =
     ([Call ''stream.RecvMsg'' [PtrNew ''Filter'']], Returned [VNil, Host 7]) \<and>
   succeeding ''stream.RecvMsg'' [PtrNew ''Filter''] = [VNil] \<and>
   exec succeeding handlerStore
     (streamHandlerBody False True ''Filter'' ''Watch'' ''feedWatchServer'') =
     ([Call ''stream.RecvMsg'' [PtrNew ''Filter''],
       Call ''svc.Watch'' [Host 3, PtrNew ''Filter'', Wrapper ''feedWatchServer'' (Host 4)]],
      Returned [VNil, Host 9]) \<and>
   exec succeeding handlerStore
     (streamHandlerBody True False ''Chunk'' ''Put'' ''uploadPutServer'') =
     ([Call ''svc.Put'' [Host 3, Wrapper ''uploadPutServer'' (Host 4)]],
      Returned [Host 1, Host 2]) \<and>
   streamHandler exampleGen Feed Watch =
     [''"Watch": {'',
      ''Handler: func(ctx context.Context, stream ttrpc.StreamServer) (interface{}, error) {'',
      ''m := new(Filter)'',
      ''if err := stream.RecvMsg(m); err != nil {'',
      ''return nil, err'',
      ''}'',
      ''return nil, svc.Watch(ctx, m, &feedWatchServer{stream})'',
      ''},'',
      ''StreamingClient: false,'',
      ''StreamingServer: true,'',
      ''},''] \<and>
   Watch \<in> set (Methods Feed) \<and>
   (IsStreamingClient (Desc Watch) \<or> IsStreamingServer (Desc Watch)) \<and>
   sublist
     ((''Streams: map[string]'' @ ident_stream exampleGen @ ''{'') #
      concat (map (streamHandler exampleGen Feed)
        (filter (\<lambda>m. shapeOf m \<noteq> UNARY) (Methods Feed))) @ [''},''])
     (registrationOf exampleGen Feed) \<and>
   sublist (registrationOf exampleGen Feed) (genService exampleGen Feed) \<and>
   sublist (streamHandler exampleGen Feed Watch) (genService exampleGen Feed)\<close>
proof -
  have h: "Watch \<in> set (Methods Feed)"
    "IsStreamingClient (Desc Watch) \<or> IsStreamingServer (Desc Watch)"
    by (simp_all add: Feed_def Watch_def)
  have runs: \<open>handlerStore ''ctx'' = Some (Host 3) \<and> handlerStore ''stream'' = Some (Host 4) \<and>
   failing ''stream.RecvMsg'' ''stream.RecvMsg'' [PtrNew ''Filter''] = [Host 7] \<and>
   Host 7 \<noteq> (VNil :: nat val) \<and>
   exec (failing ''stream.RecvMsg'') handlerStore
     (streamHandlerBody False True ''Filter'' ''Watch'' ''feedWatchServer'') =
     ([Call ''stream.RecvMsg'' [PtrNew ''Filter'']], Returned [VNil, Host 7]) \<and>
   succeeding ''stream.RecvMsg'' [PtrNew ''Filter''] = [VNil] \<and>
   exec succeeding handlerStore
     (streamHandlerBody False True ''Filter'' ''Watch'' ''feedWatchServer'') =
     ([Call ''stream.RecvMsg'' [PtrNew ''Filter''],
       Call ''svc.Watch'' [Host 3, PtrNew ''Filter'', Wrapper ''feedWatchServer'' (Host 4)]],
      Returned [VNil, Host 9]) \<and>
   exec succeeding handlerStore
     (streamHandlerBody True False ''Chunk'' ''Put'' ''uploadPutServer'') =
     ([Call ''svc.Put'' [Host 3, Wrapper ''uploadPutServer'' (Host 4)]],
      Returned [Host 1, Host 2]) \<and>
   streamHandler exampleGen Feed Watch =
     [''"Watch": {'',
      ''Handler: func(ctx context.Context, stream ttrpc.StreamServer) (interface{}, error) {'',
      ''m := new(Filter)'',
      ''if err := stream.RecvMsg(m); err != nil {'',
      ''return nil, err'',
      ''}'',
      ''return nil, svc.Watch(ctx, m, &feedWatchServer{stream})'',
      ''},'',
      ''StreamingClient: false,'',
      ''StreamingServer: true,'',
      ''},'']\<close>

  using stream_handler [where gen = exampleGen and service = Feed and m = Watch
      and c = False and s = True and st = handlerStore and ctx = "Host 3"
      and stream = "Host 4" and w = "failing ''stream.RecvMsg''" and inp = "''Filter''"
      and e = "Host 7" and name = "''Watch''" and structName = "''feedWatchServer''",
      THEN first4_of_5]
    stream_handler [where gen = exampleGen and service = Feed and m = Watch
      and c = False and s = True and st = handlerStore and ctx = "Host 3"
      and stream = "Host 4" and w = succeeding and inp = "''Filter''"
      and e = "Host 7" and name = "''Watch''" and structName = "''feedWatchServer''",
      THEN first4_of_5]
    stream_handler [where gen = exampleGen and service = Upload and m = Put
      and c = True and s = False and st = handlerStore and ctx = "Host 3"
      and stream = "Host 4" and w = succeeding and inp = "''Chunk''"
      and e = "Host 7" and name = "''Put''" and structName = "''uploadPutServer''",
      THEN first4_of_5]
  by (simp add: handlerStore_def failing_def succeeding_def exampleGen_def newGenerator_def
      qualifiedIn_def baseName_def Watch_def Feed_def exampleMessage_def
      streamHandlerBody_def ttrpcIdent_def ToLower_def lowerChar_def goBool_def)
  have links: \<open>sublist
     ((''Streams: map[string]'' @ ident_stream exampleGen @ ''{'') #
      concat (map (streamHandler exampleGen Feed)
        (filter (\<lambda>m. shapeOf m \<noteq> UNARY) (Methods Feed))) @ [''},''])
     (registrationOf exampleGen Feed) \<and>
   sublist (registrationOf exampleGen Feed) (genService exampleGen Feed) \<and>
   sublist (streamHandler exampleGen Feed Watch) (genService exampleGen Feed)\<close>
    using stream_handler [where gen = exampleGen and service = Feed and m = Watch
      and c = False and s = True and st = handlerStore and ctx = "Host 3"
      and stream = "Host 4" and w = succeeding and inp = "''Filter''"
      and e = "Host 7" and name = "''Watch''" and structName = "''feedWatchServer''",
      THEN last_of_5] h
    by blast
  from runs links h show ?thesis by - (elim conjE, intro conjI, assumption+)
qed

section \<open>The streaming client methods\<close>

lemma clientStreamCall_body:
  \<open>clientStreamCall gen service m =
     concat (map render
       (clientStreamBody (ident_streamDesc gen)
          (IsStreamingClient (Desc m)) (IsStreamingServer (Desc m))
          (FullName (Desc service)) (GoName m) (clientStructName service m))) @
     [''}'', []] \<and>
   (c \<and> st ''ctx'' = Some ctx \<and>
    w ''c.client.NewStream'' [ctx, Descriptor c s, Str fullName, Str name, VNil] =
      [stream, e] \<longrightarrow>
      exec w st (clientStreamBody desc c s fullName name structName) =
        ([Call ''c.client.NewStream'' [ctx, Descriptor c s, Str fullName, Str name, VNil]],
         Returned (if e \<noteq> VNil then [VNil, e] else [Wrapper structName stream, VNil]))) \<and>
   (\<not> c \<and> st ''ctx'' = Some ctx \<and> st ''req'' = Some req \<and>
    w ''c.client.NewStream'' [ctx, Descriptor c s, Str fullName, Str name, req] =
      [stream, e] \<longrightarrow>
      exec w st (clientStreamBody desc c s fullName name structName) =
        ([Call ''c.client.NewStream'' [ctx, Descriptor c s, Str fullName, Str name, req]],
         Returned (if e \<noteq> VNil then [VNil, e] else [Wrapper structName stream, VNil])))\<close>
  by (cases "IsStreamingClient (Desc m)"; cases "IsStreamingServer (Desc m)"; cases c)
     (simp_all add: clientStreamCall_def clientStreamBody_def P_def evals_def after_def
        goBool_def Let_def)

text \<open>
  C7. The body of the client method of a streaming method is the statements of
  \<open>clientStreamBody\<close>. They call \<^verbatim>\<open>NewStream\<close> once, with the context, a stream
  descriptor holding the two flags of the method, the full name of the service, the Go name
  of the method, and the request when the method is not client-streaming, \<^verbatim>\<open>nil\<close> when
  it is. If the call returns an error, the body returns \<^verbatim>\<open>nil\<close> and this error;
  otherwise it returns the client wrapper around the stream that the call returned, and
  \<^verbatim>\<open>nil\<close>. For every streaming method of a service, the output of \<^verbatim>\<open>genService\<close>
  holds the client method: its first line, with the parameter \<^verbatim>\<open>req\<close> when the method is
  not client-streaming and the client stream interface as the type of the result, then this
  body, then the client stream interface and the client wrapper struct.
\<close>

theorem client_stream_call:
  \<open>clientStreamCall gen service m =
     concat (map render
       (clientStreamBody (ident_streamDesc gen)
          (IsStreamingClient (Desc m)) (IsStreamingServer (Desc m))
          (FullName (Desc service)) (GoName m) (clientStructName service m))) @
     [''}'', []] \<and>
   (c \<and> st ''ctx'' = Some ctx \<and>
    w ''c.client.NewStream'' [ctx, Descriptor c s, Str fullName, Str name, VNil] =
      [stream, e] \<longrightarrow>
      exec w st (clientStreamBody desc c s fullName name structName) =
        ([Call ''c.client.NewStream'' [ctx, Descriptor c s, Str fullName, Str name, VNil]],
         Returned (if e \<noteq> VNil then [VNil, e] else [Wrapper structName stream, VNil]))) \<and>
   (\<not> c \<and> st ''ctx'' = Some ctx \<and> st ''req'' = Some req \<and>
    w ''c.client.NewStream'' [ctx, Descriptor c s, Str fullName, Str name, req] =
      [stream, e] \<longrightarrow>
      exec w st (clientStreamBody desc c s fullName name structName) =
        ([Call ''c.client.NewStream'' [ctx, Descriptor c s, Str fullName, Str name, req]],
         Returned (if e \<noteq> VNil then [VNil, e] else [Wrapper structName stream, VNil]))) \<and>
   (m \<in> set (Methods service) \<and>
    (IsStreamingClient (Desc m) \<or> IsStreamingServer (Desc m)) \<longrightarrow>
      clientMethod gen service m =
        (''func (c *'' @ clientStructType service @ '') '' @ GoName m @
         ''(ctx '' @ ident_context gen @
         (if IsStreamingClient (Desc m) then []
          else '', req *'' @ QualifiedGoIdent gen (GoIdent (Input m))) @
         '') ('' @ GoName service @ ''_'' @ GoName m @ ''Client, error) {'') #
        clientStreamCall gen service m @
        clientStreamInterface gen service m @
        clientStreamStruct gen service m \<and>
      sublist (clientMethod gen service m) (genService gen service))\<close>
proof -
  have link: \<open>(m \<in> set (Methods service) \<and>
    (IsStreamingClient (Desc m) \<or> IsStreamingServer (Desc m)) \<longrightarrow>
      clientMethod gen service m =
        (''func (c *'' @ clientStructType service @ '') '' @ GoName m @
         ''(ctx '' @ ident_context gen @
         (if IsStreamingClient (Desc m) then []
          else '', req *'' @ QualifiedGoIdent gen (GoIdent (Input m))) @
         '') ('' @ GoName service @ ''_'' @ GoName m @ ''Client, error) {'') #
        clientStreamCall gen service m @
        clientStreamInterface gen service m @
        clientStreamStruct gen service m \<and>
      sublist (clientMethod gen service m) (genService gen service))\<close>
    using clientMethod_streaming [of m gen service] genService_clientMethod [of m service gen]
    by blast
  from clientStreamCall_body [where gen = gen and service = service and m = m and c = c and st = st
      and ctx = ctx and w = w and s = s and fullName = fullName and name = name
      and stream = stream and e = e and desc = desc and structName = structName
      and req = req] link
  show ?thesis by - (elim conjE, intro conjI, assumption+)
qed

theorem client_stream_call_witness:
  \<open>clientStore ''ctx'' = Some (Host 3) \<and> clientStore ''req'' = Some (Host 5) \<and>
   refusing ''c.client.NewStream''
     [Host 3, Descriptor True False, Str ''api.Upload'', Str ''Put'', VNil] =
     [VNil, Host 7] \<and>
   exec refusing clientStore
     (clientStreamBody ''ttrpc.StreamDesc'' True False ''api.Upload'' ''Put''
        ''uploadPutClient'') =
     ([Call ''c.client.NewStream''
         [Host 3, Descriptor True False, Str ''api.Upload'', Str ''Put'', VNil]],
      Returned [VNil, Host 7]) \<and>
   accepting ''c.client.NewStream''
     [Host 3, Descriptor False True, Str ''api.Feed'', Str ''Watch'', Host 5] =
     [Host 8, VNil] \<and>
   exec accepting clientStore
     (clientStreamBody ''ttrpc.StreamDesc'' False True ''api.Feed'' ''Watch''
        ''feedWatchClient'') =
     ([Call ''c.client.NewStream''
         [Host 3, Descriptor False True, Str ''api.Feed'', Str ''Watch'', Host 5]],
      Returned [Wrapper ''feedWatchClient'' (Host 8), VNil]) \<and>
   clientStreamCall exampleGen Upload Put =
     [''stream, err := c.client.NewStream(ctx, &ttrpc.StreamDesc{'',
      ''StreamingClient: true,'',
      ''StreamingServer: false,'',
      ''}, "api.Upload", "Put", nil)'',
      ''if err != nil {'',
      ''return nil, err'',
      ''}'',
      ''x := &uploadPutClient{stream}'',
      ''return x, nil'',
      ''}'',
      ''''] \<and>
   Put \<in> set (Methods Upload) \<and>
   (IsStreamingClient (Desc Put) \<or> IsStreamingServer (Desc Put)) \<and>
   hd (clientMethod exampleGen Upload Put) =
     ''func (c *uploadClient) Put(ctx context.Context) (Upload_PutClient, error) {'' \<and>
   tl (clientMethod exampleGen Upload Put) =
     clientStreamCall exampleGen Upload Put @
     clientStreamInterface exampleGen Upload Put @
     clientStreamStruct exampleGen Upload Put \<and>
   sublist (clientMethod exampleGen Upload Put) (genService exampleGen Upload)\<close>
proof -
  have h: "Put \<in> set (Methods Upload)"
    "IsStreamingClient (Desc Put) \<or> IsStreamingServer (Desc Put)"
    by (simp_all add: Upload_def Put_def)
  have runs: \<open>clientStore ''ctx'' = Some (Host 3) \<and> clientStore ''req'' = Some (Host 5) \<and>
   refusing ''c.client.NewStream''
     [Host 3, Descriptor True False, Str ''api.Upload'', Str ''Put'', VNil] =
     [VNil, Host 7] \<and>
   exec refusing clientStore
     (clientStreamBody ''ttrpc.StreamDesc'' True False ''api.Upload'' ''Put''
        ''uploadPutClient'') =
     ([Call ''c.client.NewStream''
         [Host 3, Descriptor True False, Str ''api.Upload'', Str ''Put'', VNil]],
      Returned [VNil, Host 7]) \<and>
   accepting ''c.client.NewStream''
     [Host 3, Descriptor False True, Str ''api.Feed'', Str ''Watch'', Host 5] =
     [Host 8, VNil] \<and>
   exec accepting clientStore
     (clientStreamBody ''ttrpc.StreamDesc'' False True ''api.Feed'' ''Watch''
        ''feedWatchClient'') =
     ([Call ''c.client.NewStream''
         [Host 3, Descriptor False True, Str ''api.Feed'', Str ''Watch'', Host 5]],
      Returned [Wrapper ''feedWatchClient'' (Host 8), VNil]) \<and>
   clientStreamCall exampleGen Upload Put =
     [''stream, err := c.client.NewStream(ctx, &ttrpc.StreamDesc{'',
      ''StreamingClient: true,'',
      ''StreamingServer: false,'',
      ''}, "api.Upload", "Put", nil)'',
      ''if err != nil {'',
      ''return nil, err'',
      ''}'',
      ''x := &uploadPutClient{stream}'',
      ''return x, nil'',
      ''}'',
      '''']\<close>

  using client_stream_call [where gen = exampleGen and service = Upload and m = Put
      and c = True and s = False and st = clientStore and ctx = "Host 3"
      and w = refusing and fullName = "''api.Upload''" and name = "''Put''"
      and stream = VNil and e = "Host 7" and desc = "''ttrpc.StreamDesc''"
      and structName = "''uploadPutClient''",
      THEN first3_of_4]
    client_stream_call [where gen = exampleGen and service = Upload and m = Put
      and c = False and s = True and st = clientStore and ctx = "Host 3"
      and req = "Host 5"
      and w = accepting and fullName = "''api.Feed''" and name = "''Watch''"
      and stream = "Host 8" and e = VNil and desc = "''ttrpc.StreamDesc''"
      and structName = "''feedWatchClient''",
      THEN first3_of_4]
  by (simp add: clientStore_def refusing_def accepting_def exampleGen_def newGenerator_def
      qualifiedIn_def baseName_def Put_def Upload_def exampleMessage_def
      clientStreamBody_def clientStructName_def ttrpcIdent_def ToLower_def lowerChar_def
      goBool_def)
  have t: "clientStructType Upload = ''uploadClient''"
    by (simp add: clientStructType_def Upload_def ToLower_def lowerChar_def)
  have names: "GoName Put = ''Put''" "GoName Upload = ''Upload''"
    "IsStreamingClient (Desc Put)" "ident_context exampleGen = ''context.Context''"
    by (simp_all add: Put_def Upload_def exampleGen_def newGenerator_def qualifiedIn_def
        baseName_def)
  have links: \<open>hd (clientMethod exampleGen Upload Put) =
     ''func (c *uploadClient) Put(ctx context.Context) (Upload_PutClient, error) {'' \<and>
   tl (clientMethod exampleGen Upload Put) =
     clientStreamCall exampleGen Upload Put @
     clientStreamInterface exampleGen Upload Put @
     clientStreamStruct exampleGen Upload Put \<and>
   sublist (clientMethod exampleGen Upload Put) (genService exampleGen Upload)\<close>
    using client_stream_call [where gen = exampleGen and service = Upload and m = Put
      and c = True and s = False and st = clientStore and ctx = "Host 3"
      and w = refusing and fullName = "''api.Upload''" and name = "''Put''"
      and stream = VNil and e = "Host 7" and desc = "''ttrpc.StreamDesc''"
      and structName = "''uploadPutClient''",
      THEN last_of_4] h
    by (auto simp: t names)
  from runs links h show ?thesis by - (elim conjE, intro conjI, assumption+)
qed

end
